theory Spec2Isabelle
  imports Complex_Main "HOL-Library.Multiset"
begin

section \<open>JavaScript numbers\<close>

text \<open>
  Every score and metric of the server is a TypeScript \<^verbatim>\<open>number\<close>. A number is modelled
  as a real, or one of the three non-finite values; the sign of zero is not modelled. The
  operations of this section are exact: a finite operation on finite operands is the
  operation on the reals, without the rounding and the overflow of IEEE doubles. The
  operations with rounding and overflow follow in their own section, after the health
  score.
\<close>

datatype jsnum = Fin real | PInf | NInf | NaN


fun isNaN :: "jsnum \<Rightarrow> bool" where
  "isNaN NaN = True"
| "isNaN v = False"

fun js_neg :: "jsnum \<Rightarrow> jsnum" where
  "js_neg (Fin a) = Fin (- a)"
| "js_neg PInf = NInf"
| "js_neg NInf = PInf"
| "js_neg NaN = NaN"

fun js_add :: "jsnum \<Rightarrow> jsnum \<Rightarrow> jsnum" where
  "js_add NaN b = NaN"
| "js_add a NaN = NaN"
| "js_add (Fin a) (Fin b) = Fin (a + b)"
| "js_add PInf NInf = NaN"
| "js_add NInf PInf = NaN"
| "js_add PInf b = PInf"
| "js_add a PInf = PInf"
| "js_add NInf b = NInf"
| "js_add a NInf = NInf"

fun js_sign :: "jsnum \<Rightarrow> int" where
  "js_sign (Fin a) = (if a < 0 then - 1 else if a = 0 then 0 else 1)"
| "js_sign PInf = 1"
| "js_sign NInf = - 1"
| "js_sign NaN = 0"

fun js_mul :: "jsnum \<Rightarrow> jsnum \<Rightarrow> jsnum" where
  "js_mul NaN b = NaN"
| "js_mul a NaN = NaN"
| "js_mul (Fin a) (Fin b) = Fin (a * b)"
| "js_mul a b =
     (if js_sign a * js_sign b = 0 then NaN
      else if js_sign a * js_sign b > 0 then PInf else NInf)"

text \<open>
  Division: a finite quotient is exact; a finite value over an infinity is zero; an
  infinity over an infinity and zero over zero are NaN. The zero divisor is read as
  positive zero.
\<close>

fun js_div :: "jsnum \<Rightarrow> jsnum \<Rightarrow> jsnum" where
  "js_div NaN b = NaN"
| "js_div a NaN = NaN"
| "js_div (Fin a) (Fin b) =
     (if b = 0 then (if a = 0 then NaN else if a > 0 then PInf else NInf)
      else Fin (a / b))"
| "js_div (Fin a) b = Fin 0"
| "js_div a (Fin b) =
     (if (js_sign a > 0) = (b \<ge> 0) then PInf else NInf)"
| "js_div a b = NaN"

fun js_le :: "jsnum \<Rightarrow> jsnum \<Rightarrow> bool" where
  "js_le NaN b = False"
| "js_le a NaN = False"
| "js_le (Fin a) (Fin b) = (a \<le> b)"
| "js_le NInf b = True"
| "js_le a PInf = True"
| "js_le a b = False"

fun js_lt :: "jsnum \<Rightarrow> jsnum \<Rightarrow> bool" where
  "js_lt NaN b = False"
| "js_lt a NaN = False"
| "js_lt (Fin a) (Fin b) = (a < b)"
| "js_lt NInf NInf = False"
| "js_lt PInf PInf = False"
| "js_lt NInf b = True"
| "js_lt a PInf = True"
| "js_lt a b = False"

text \<open>
  The operators of the source are written with the usual symbols: \<open>a + b\<close>, \<open>a - b\<close>,
  \<open>a * b\<close>, \<open>a / b\<close>, \<open>a \<le> b\<close>, \<open>a < b\<close> on \<^typ>\<open>jsnum\<close> are the JavaScript operators.
  (\<open>a > b\<close> is \<open>b < a\<close>, in JavaScript as in HOL.)
\<close>

instantiation jsnum :: "{plus, minus, times, inverse, ord}"
begin

definition plus_jsnum :: "jsnum \<Rightarrow> jsnum \<Rightarrow> jsnum" where
  "plus_jsnum a b = js_add a b"

definition minus_jsnum :: "jsnum \<Rightarrow> jsnum \<Rightarrow> jsnum" where
  "minus_jsnum a b = js_add a (js_neg b)"

definition times_jsnum :: "jsnum \<Rightarrow> jsnum \<Rightarrow> jsnum" where
  "times_jsnum a b = js_mul a b"

definition divide_jsnum :: "jsnum \<Rightarrow> jsnum \<Rightarrow> jsnum" where
  "divide_jsnum a b = js_div a b"

definition inverse_jsnum :: "jsnum \<Rightarrow> jsnum" where
  "inverse_jsnum a = js_div (Fin 1) a"

definition less_eq_jsnum :: "jsnum \<Rightarrow> jsnum \<Rightarrow> bool" where
  "less_eq_jsnum a b = js_le a b"

definition less_jsnum :: "jsnum \<Rightarrow> jsnum \<Rightarrow> bool" where
  "less_jsnum a b = js_lt a b"

instance ..

end

text \<open>\<^verbatim>\<open>Math.max\<close>, \<^verbatim>\<open>Math.min\<close>: NaN when an argument is NaN. \<^verbatim>\<open>Math.round\<close>: the nearest
  integer, a half rounded up.\<close>

definition Math_max :: "jsnum \<Rightarrow> jsnum \<Rightarrow> jsnum" where
  "Math_max a b = (if isNaN a \<or> isNaN b then NaN else if a \<le> b then b else a)"

definition Math_min :: "jsnum \<Rightarrow> jsnum \<Rightarrow> jsnum" where
  "Math_min a b = (if isNaN a \<or> isNaN b then NaN else if a \<le> b then a else b)"

fun Math_round :: "jsnum \<Rightarrow> jsnum" where
  "Math_round (Fin r) = Fin (of_int \<lfloor>r + 1 / 2\<rfloor>)"
| "Math_round v = v"

section \<open>The health score of a weekly metric\<close>

text \<open>
  \<^verbatim>\<open>const clamp = (value, min = 0, max = 100) => Math.max(min, Math.min(max, value))\<close>;
  every call of the source leaves the bounds at their defaults, which is \<open>clamp100\<close>.
\<close>

definition clamp :: "jsnum \<Rightarrow> jsnum \<Rightarrow> jsnum \<Rightarrow> jsnum" where
  "clamp val mn mx = Math_max mn (Math_min mx val)"

definition clamp100 :: "jsnum \<Rightarrow> jsnum" where
  "clamp100 val = clamp val (Fin 0) (Fin 100)"

definition toPercent :: "jsnum \<Rightarrow> jsnum" where
  "toPercent val =
     (if isNaN val then Fin 0
      else if val \<le> Fin (3 / 2) then val * Fin 100 else val)"

text \<open>Timestamps are milliseconds since the epoch; row and employee ids are integers.\<close>

record EmployeeWeeklyMetric =
  wm_id :: int
  wm_employeeId :: int
  weekStart :: int
  tasksAssigned :: jsnum
  tasksCompleted :: jsnum
  missedDeadlines :: jsnum
  meetingHours :: jsnum
  collaborationScore :: jsnum
  wm_engagementScore :: jsnum
  learningHours :: jsnum
  stretchAssignments :: jsnum
  wm_createdAt :: "int option"

record InsertHealthScore =
  employeeId :: int
  burnoutRisk :: jsnum
  engagementScore :: jsnum
  performanceScore :: jsnum
  workloadScore :: jsnum
  date :: int

definition computeHealthScoreFromMetric :: "EmployeeWeeklyMetric \<Rightarrow> InsertHealthScore" where
  "computeHealthScoreFromMetric metric =
     (let engagementScore' = clamp100 (toPercent (wm_engagementScore metric));
          collaborationScore' = clamp100 (toPercent (collaborationScore metric));
          tasksAssigned' = Math_max (Fin 0) (tasksAssigned metric);
          tasksCompleted' = Math_max (Fin 0) (tasksCompleted metric);
          missedDeadlines' = Math_max (Fin 0) (missedDeadlines metric);
          taskCompletionRatio =
            (if tasksAssigned' > Fin 0 then tasksCompleted' / tasksAssigned' else Fin 0);
          deadlineMissRate =
            (if tasksAssigned' > Fin 0 then missedDeadlines' / tasksAssigned' else Fin 0);
          workloadScore' = clamp100
            ((tasksAssigned' / Fin 40) * Fin 70 +
             (meetingHours metric / Fin 10) * Fin 20 +
             (stretchAssignments metric / Fin 5) * Fin 10);
          performanceScore' = clamp100
            (taskCompletionRatio * Fin 100 * Fin (6 / 10) +
             engagementScore' * Fin (2 / 10) +
             collaborationScore' * Fin (2 / 10) -
             deadlineMissRate * Fin 100 * Fin (2 / 10));
          burnoutRisk' = clamp100
            (workloadScore' * Fin (45 / 100) +
             deadlineMissRate * Fin 100 * Fin (25 / 100) +
             (Fin 100 - engagementScore') * Fin (2 / 10) +
             (Fin 100 - collaborationScore') * Fin (1 / 10))
      in \<lparr> employeeId = wm_employeeId metric,
           burnoutRisk = Math_round burnoutRisk',
           engagementScore = Math_round engagementScore',
           performanceScore = Math_round performanceScore',
           workloadScore = Math_round workloadScore',
           date = weekStart metric \<rparr>)"

section \<open>The health score in double arithmetic\<close>














section \<open>The store\<close>

text \<open>
  The tables of \<^verbatim>\<open>shared/schema.ts\<close>, each a list of rows in insertion order, and the
  two serial counters the modelled inserts draw row ids from. A stored row is the insert
  record with the columns the database fills in (\<^verbatim>\<open>id\<close>, \<^verbatim>\<open>createdAt\<close>).
\<close>

record Employee =
  emp_id :: int
  emp_name :: string
  emp_role :: string
  department :: string
  email :: string
  joinedAt :: "int option"

record HealthScore = InsertHealthScore +
  hs_id :: int

record TopFeatures =
  tf_burnout :: "string list"
  tf_performance :: "string list"
  tf_growth :: "string list"

record InsertEmployeeMlPrediction =
  mp_employeeId :: int
  windowStart :: int
  windowEnd :: int
  mp_burnoutRisk :: string
  burnoutConfidence :: jsnum
  performanceTrend :: string
  performanceConfidence :: jsnum
  growthPotential :: string
  growthConfidence :: jsnum
  topFeatures :: TopFeatures
  recommendations :: "string list"
  explanation :: string

record EmployeeMlPrediction = InsertEmployeeMlPrediction +
  mp_id :: int
  createdAt :: "int option"

record DatabaseStorage =
  employees :: "Employee list"
  healthScores :: "HealthScore list"
  employeeWeeklyMetrics :: "EmployeeWeeklyMetric list"
  employeeMlPredictions :: "EmployeeMlPrediction list"
  healthScores_id_seq :: int
  employeeMlPredictions_id_seq :: int

definition getEmployees :: "DatabaseStorage \<Rightarrow> Employee list" where
  "getEmployees db = employees db"

definition getEmployee :: "DatabaseStorage \<Rightarrow> int \<Rightarrow> Employee option" where
  "getEmployee db i = List.find (\<lambda>e. emp_id e = i) (employees db)"

subsection \<open>Health scores\<close>

text \<open>
  \<^verbatim>\<open>upsertHealthScore\<close> selects one row of the score's employee and date; when there is
  one it updates the rows with that row's id and returns the first updated row, otherwise
  it inserts the score under the next serial id.
\<close>

definition set_scores :: "InsertHealthScore \<Rightarrow> HealthScore \<Rightarrow> HealthScore" where
  "set_scores score h =
     h\<lparr> burnoutRisk := burnoutRisk score,
        engagementScore := engagementScore score,
        performanceScore := performanceScore score,
        workloadScore := workloadScore score,
        date := date score \<rparr>"

definition upsertHealthScore ::
  "InsertHealthScore \<Rightarrow> DatabaseStorage \<Rightarrow> HealthScore option \<times> DatabaseStorage" where
  "upsertHealthScore score db =
     (case List.find (\<lambda>h. employeeId h = employeeId score \<and> date h = date score)
             (healthScores db) of
        Some existing \<Rightarrow>
          (let rows = map (\<lambda>h. if hs_id h = hs_id existing then set_scores score h else h)
                        (healthScores db)
           in (List.find (\<lambda>h. hs_id h = hs_id existing) rows,
               db\<lparr> healthScores := rows \<rparr>))
      | None \<Rightarrow>
          (let created = \<lparr> employeeId = employeeId score,
                            burnoutRisk = burnoutRisk score,
                            engagementScore = engagementScore score,
                            performanceScore = performanceScore score,
                            workloadScore = workloadScore score,
                            date = date score,
                            hs_id = healthScores_id_seq db \<rparr>
           in (Some created,
               db\<lparr> healthScores := healthScores db @ [created],
                    healthScores_id_seq := healthScores_id_seq db + 1 \<rparr>)))"

text \<open>
  The routes that store metrics upsert the health score of each metric in turn
  (\<^verbatim>\<open>for (const metric of inserted) await storage.upsertHealthScore(...)\<close>).
\<close>

fun upsertAll :: "InsertHealthScore list \<Rightarrow> DatabaseStorage \<Rightarrow> DatabaseStorage" where
  "upsertAll [] db = db"
| "upsertAll (score # rest) db = upsertAll rest (snd (upsertHealthScore score db))"

text \<open>
  The natural key of a health score, the row of a key, and the two constraints of the
  table's primary key: the ids differ, and the serial counter is ahead of them.
\<close>

definition hs_key :: "'a InsertHealthScore_scheme \<Rightarrow> int \<times> int" where
  "hs_key h = (employeeId h, date h)"

definition hs_lookup :: "int \<times> int \<Rightarrow> DatabaseStorage \<Rightarrow> HealthScore option" where
  "hs_lookup k db = List.find (\<lambda>h. hs_key h = k) (healthScores db)"

definition hs_primary_key :: "DatabaseStorage \<Rightarrow> bool" where
  "hs_primary_key db =
     (distinct (map hs_id (healthScores db))
      \<and> list_all (\<lambda>h. hs_id h < healthScores_id_seq db) (healthScores db))"

text \<open>
  The update of \<^verbatim>\<open>upsertHealthScore\<close> as a function on rows, and the invariant of the
  table: the primary key, and at most one row for each employee and date.
\<close>

definition update_row :: "InsertHealthScore \<Rightarrow> HealthScore \<Rightarrow> HealthScore \<Rightarrow> HealthScore" where
  "update_row s ex h = (if hs_id h = hs_id ex then set_scores s h else h)"

definition hs_inv :: "DatabaseStorage \<Rightarrow> bool" where
  "hs_inv db = (hs_primary_key db \<and> distinct (map hs_key (healthScores db)))"

text \<open>
  \<^verbatim>\<open>const d = new Date(); d.setDate(d.getDate() - n)\<close> is the current time set back \<open>n\<close>
  calendar days in the server's local time. What that is in milliseconds depends on the
  time zone of the server and its clock changes, which are not in the repository: the
  functions that compute a cutoff take it as the parameter \<open>setDateBack\<close>, with
  \<open>setDateBack now n\<close> the timestamp of \<open>d\<close> when the current time is \<open>now\<close>. On a server
  that runs in UTC it is \<open>setDateBack_utc\<close>, \<open>n\<close> times 86400000 ms earlier.
\<close>

definition setDateBack_utc :: "int \<Rightarrow> int \<Rightarrow> int" where
  "setDateBack_utc now n = now - n * 86400000"

record TeamHealth =
  th_burnoutRisk :: jsnum
  th_engagementScore :: jsnum
  th_performanceScore :: jsnum
  th_workloadScore :: jsnum

definition getLatestTeamHealth ::
  "(int \<Rightarrow> int \<Rightarrow> int) \<Rightarrow> int \<Rightarrow> DatabaseStorage \<Rightarrow> TeamHealth" where
  "getLatestTeamHealth setDateBack now db =
     (let sevenDaysAgo = setDateBack now 7;
          recentScores = filter (\<lambda>h. sevenDaysAgo \<le> date h) (healthScores db)
      in if length recentScores = 0
         then \<lparr> th_burnoutRisk = Fin 0, th_engagementScore = Fin 0,
                th_performanceScore = Fin 0, th_workloadScore = Fin 0 \<rparr>
         else
           (let total = foldl (\<lambda>acc curr.
                   \<lparr> th_burnoutRisk = th_burnoutRisk acc + burnoutRisk curr,
                     th_engagementScore = th_engagementScore acc + engagementScore curr,
                     th_performanceScore = th_performanceScore acc + performanceScore curr,
                     th_workloadScore = th_workloadScore acc + workloadScore curr \<rparr>)
                   \<lparr> th_burnoutRisk = Fin 0, th_engagementScore = Fin 0,
                     th_performanceScore = Fin 0, th_workloadScore = Fin 0 \<rparr>
                   recentScores;
                n = Fin (of_nat (length recentScores))
            in \<lparr> th_burnoutRisk = Math_round (th_burnoutRisk total / n),
                 th_engagementScore = Math_round (th_engagementScore total / n),
                 th_performanceScore = Math_round (th_performanceScore total / n),
                 th_workloadScore = Math_round (th_workloadScore total / n) \<rparr>))"

text \<open>Rows in ascending order of the date; rows of one date stay in table order.\<close>

definition getTeamHealthTrend ::
  "(int \<Rightarrow> int \<Rightarrow> int) \<Rightarrow> int \<Rightarrow> int \<Rightarrow> DatabaseStorage \<Rightarrow> HealthScore list" where
  "getTeamHealthTrend setDateBack now days db =
     (let startDate = setDateBack now days
      in sort_key date (filter (\<lambda>h. startDate \<le> date h) (healthScores db)))"

subsection \<open>Weekly metrics\<close>

text \<open>
  \<^verbatim>\<open>ORDER BY week_start DESC\<close>: the sort on the negated key. The database leaves the order of
  rows with one \<^verbatim>\<open>week_start\<close> open; the model keeps them in table order.
\<close>

definition getWeeklyMetrics :: "DatabaseStorage \<Rightarrow> int \<Rightarrow> EmployeeWeeklyMetric list" where
  "getWeeklyMetrics db eid =
     sort_key (\<lambda>m. - weekStart m)
       (filter (\<lambda>m. wm_employeeId m = eid) (employeeWeeklyMetrics db))"

text \<open>The stored metrics of one employee, in table order.\<close>

definition metricsOf :: "DatabaseStorage \<Rightarrow> int \<Rightarrow> EmployeeWeeklyMetric list" where
  "metricsOf db eid = filter (\<lambda>m. wm_employeeId m = eid) (employeeWeeklyMetrics db)"

subsection \<open>Predictions\<close>

text \<open>
  \<^verbatim>\<open>ORDER BY created_at DESC LIMIT 1\<close>. PostgreSQL sorts NULL first in a descending order;
  \<open>created_before a b\<close> says that a row created at \<open>a\<close> stands strictly before one created
  at \<open>b\<close>. Among rows that tie the model returns the first of the table.
\<close>

fun created_before :: "int option \<Rightarrow> int option \<Rightarrow> bool" where
  "created_before None None = False"
| "created_before None (Some b) = True"
| "created_before (Some a) None = False"
| "created_before (Some a) (Some b) = (b < a)"

fun first_created_desc :: "EmployeeMlPrediction list \<Rightarrow> EmployeeMlPrediction option" where
  "first_created_desc [] = None"
| "first_created_desc (p # ps) =
     (case first_created_desc ps of
        None \<Rightarrow> Some p
      | Some q \<Rightarrow> if created_before (createdAt q) (createdAt p) then Some q else Some p)"

definition getLatestMlPrediction :: "DatabaseStorage \<Rightarrow> int \<Rightarrow> EmployeeMlPrediction option" where
  "getLatestMlPrediction db eid =
     first_created_desc (filter (\<lambda>p. mp_employeeId p = eid) (employeeMlPredictions db))"

text \<open>
  The bulk insert: each row gets the next serial id, and \<^verbatim>\<open>created_at\<close> defaults to the
  database's clock \<open>db_now\<close>.
\<close>

fun insertMlPredictions ::
  "int \<Rightarrow> int \<Rightarrow> InsertEmployeeMlPrediction list \<Rightarrow> EmployeeMlPrediction list" where
  "insertMlPredictions db_now next_id [] = []"
| "insertMlPredictions db_now next_id (p # ps) =
     \<lparr> mp_employeeId = mp_employeeId p, windowStart = windowStart p,
       windowEnd = windowEnd p, mp_burnoutRisk = mp_burnoutRisk p,
       burnoutConfidence = burnoutConfidence p, performanceTrend = performanceTrend p,
       performanceConfidence = performanceConfidence p,
       growthPotential = growthPotential p, growthConfidence = growthConfidence p,
       topFeatures = topFeatures p, recommendations = recommendations p,
       explanation = explanation p, mp_id = next_id, createdAt = Some db_now \<rparr>
     # insertMlPredictions db_now (next_id + 1) ps"

definition createMlPredictions ::
  "int \<Rightarrow> InsertEmployeeMlPrediction list \<Rightarrow> DatabaseStorage
    \<Rightarrow> EmployeeMlPrediction list \<times> DatabaseStorage" where
  "createMlPredictions db_now predictions db =
     (if length predictions = 0 then ([], db)
      else
        (let rows = insertMlPredictions db_now (employeeMlPredictions_id_seq db) predictions
         in (rows,
             db\<lparr> employeeMlPredictions := employeeMlPredictions db @ rows,
                  employeeMlPredictions_id_seq :=
                    employeeMlPredictions_id_seq db + int (length predictions) \<rparr>)))"

section \<open>The prediction routes\<close>

subsection \<open>The payload of one employee\<close>

record WeekPayload =
  week_start :: int
  tasks_assigned :: jsnum
  tasks_completed :: jsnum
  missed_deadlines :: jsnum
  meeting_hours :: jsnum
  collaboration_score :: jsnum
  engagement_score :: jsnum
  learning_hours :: jsnum
  stretch_assignments :: jsnum

record EmployeePayload =
  employee_id :: int
  weeks :: "WeekPayload list"

definition weekPayload :: "EmployeeWeeklyMetric \<Rightarrow> WeekPayload" where
  "weekPayload week =
     \<lparr> week_start = weekStart week,
       tasks_assigned = tasksAssigned week,
       tasks_completed = tasksCompleted week,
       missed_deadlines = missedDeadlines week,
       meeting_hours = meetingHours week,
       collaboration_score = collaborationScore week,
       engagement_score = wm_engagementScore week,
       learning_hours = learningHours week,
       stretch_assignments = stretchAssignments week \<rparr>"

text \<open>\<^verbatim>\<open>metrics.slice(0, 4).reverse()\<close>; no payload (\<^verbatim>\<open>null\<close>) for a window under four weeks.\<close>

definition buildPayloadForEmployee :: "DatabaseStorage \<Rightarrow> int \<Rightarrow> EmployeePayload option" where
  "buildPayloadForEmployee db eid =
     (let metrics = getWeeklyMetrics db eid;
          window = rev (take 4 metrics)
      in if length window < 4 then None
         else Some \<lparr> employee_id = eid, weeks = map weekPayload window \<rparr>)"

subsection \<open>The batch call\<close>

text \<open>
  One result of the service's JSON reply. A field the source reads with \<^verbatim>\<open>|| []\<close> or
  \<^verbatim>\<open>|| ""\<close> may be absent. The service itself is a parameter: a function from the request
  body (the payloads under \<^verbatim>\<open>employees\<close>) to what \<^verbatim>\<open>fetch\<close> yields, which is a rejected
  promise, a response that is not \<^verbatim>\<open>ok\<close> with its body text, or an \<^verbatim>\<open>ok\<close> response with
  the \<^verbatim>\<open>results\<close> of its JSON (possibly absent). An \<^verbatim>\<open>ok\<close> response whose body is not
  JSON of this shape, and a failing database statement, are outside the model.
\<close>

record MlResult =
  r_employee_id :: int
  window_start :: int
  window_end :: int
  burnout_risk :: string
  burnout_confidence :: jsnum
  performance_trend :: string
  performance_confidence :: jsnum
  growth_potential :: string
  growth_confidence :: jsnum
  burnout_top_features :: "string list option"
  performance_top_features :: "string list option"
  growth_top_features :: "string list option"
  r_recommendations :: "string list option"
  r_explanation :: "string option"

datatype ml_reply = FetchRejected | NotOk string | Ok "MlResult list option"

datatype exn = FetchFailed

text \<open>\<^verbatim>\<open>x || d\<close> on a field that may be absent.\<close>

fun or_default :: "'a option \<Rightarrow> 'a \<Rightarrow> 'a" where
  "or_default None d = d"
| "or_default (Some x) d = x"

definition toPrediction :: "MlResult \<Rightarrow> InsertEmployeeMlPrediction" where
  "toPrediction result =
     \<lparr> mp_employeeId = r_employee_id result,
       windowStart = window_start result,
       windowEnd = window_end result,
       mp_burnoutRisk = burnout_risk result,
       burnoutConfidence = burnout_confidence result,
       performanceTrend = performance_trend result,
       performanceConfidence = performance_confidence result,
       growthPotential = growth_potential result,
       growthConfidence = growth_confidence result,
       topFeatures =
         \<lparr> tf_burnout = or_default (burnout_top_features result) [],
           tf_performance = or_default (performance_top_features result) [],
           tf_growth = or_default (growth_top_features result) [] \<rparr>,
       recommendations = or_default (r_recommendations result) [],
       explanation = or_default (r_explanation result) [] \<rparr>"

text \<open>
  What a route reads from outside the store: the ML service, the cache lifetime
  \<^verbatim>\<open>parseInt(process.env.ML_PREDICTION_CACHE_TTL_MS || "300000", 10)\<close> (an integer; a value
  that does not parse is outside the model), \<^verbatim>\<open>Date.now()\<close> and the database's clock.
\<close>

record Env =
  mlService :: "EmployeePayload list \<Rightarrow> ml_reply"
  cacheTtlMs :: int
  Date_now :: int
  db_now :: int

definition default_cacheTtlMs :: int where
  "default_cacheTtlMs = 300000"

text \<open>
  The cache gate, the first loop of \<^verbatim>\<open>runMlBatch\<close>: a payload whose employee has a latest
  prediction with a \<^verbatim>\<open>createdAt\<close> younger than the lifetime goes to \<^verbatim>\<open>recentlyCached\<close>
  (as that prediction), every other one to \<^verbatim>\<open>toPredict\<close>.
\<close>

definition recently_cached :: "Env \<Rightarrow> DatabaseStorage \<Rightarrow> EmployeePayload \<Rightarrow> EmployeeMlPrediction option" where
  "recently_cached env db payload =
     (case getLatestMlPrediction db (employee_id payload) of
        None \<Rightarrow> None
      | Some cached \<Rightarrow>
          (case createdAt cached of
             None \<Rightarrow> None
           | Some created \<Rightarrow>
               (let ageMs = Date_now env - created
                in if ageMs < cacheTtlMs env then Some cached else None)))"

fun cacheGate ::
  "Env \<Rightarrow> DatabaseStorage \<Rightarrow> EmployeePayload list
    \<Rightarrow> EmployeeMlPrediction list \<times> EmployeePayload list" where
  "cacheGate env db [] = ([], [])"
| "cacheGate env db (payload # rest) =
     (let (recentlyCached, toPredict) = cacheGate env db rest
      in case recently_cached env db payload of
           Some cached \<Rightarrow> (cached # recentlyCached, toPredict)
         | None \<Rightarrow> (recentlyCached, payload # toPredict))"

datatype batch_result =
    BatchNotOk string
  | BatchOk (b_processed: nat) (b_saved: nat) (b_skipped: nat)

text \<open>
  A route returns what it answered (or the exception it ended with), the store it leaves
  and the request bodies it sent to \<^verbatim>\<open>/predict/batch\<close>, in order.
\<close>

type_synonym 'a effect = "(exn + 'a) \<times> DatabaseStorage \<times> EmployeePayload list list"

definition runMlBatch :: "Env \<Rightarrow> EmployeePayload list \<Rightarrow> DatabaseStorage \<Rightarrow> batch_result effect" where
  "runMlBatch env batchPayload db =
     (let (recentlyCached, toPredict) = cacheGate env db batchPayload
      in if length toPredict = 0
         then (Inr (BatchOk 0 0 (length recentlyCached)), db, [])
         else
           (case mlService env toPredict of
              FetchRejected \<Rightarrow> (Inl FetchFailed, db, [toPredict])
            | NotOk detail \<Rightarrow> (Inr (BatchNotOk detail), db, [toPredict])
            | Ok results \<Rightarrow>
                (let predictions = map toPrediction (or_default results []);
                     (saved, db') = createMlPredictions (db_now env) predictions db
                 in (Inr (BatchOk (length predictions) (length saved) (length recentlyCached)),
                     db', [toPredict]))))"

subsection \<open>The routes\<close>

datatype body =
    Summary (processed: nat) (skipped: nat) (predictionsSaved: nat)
  | Message string
  | MlServiceError string string

datatype response = Response (status: nat) (body: body)

text \<open>The first loop of the route over all employees: the payloads, and how many had none.\<close>

fun collectPayloads :: "DatabaseStorage \<Rightarrow> Employee list \<Rightarrow> nat \<times> EmployeePayload list" where
  "collectPayloads db [] = (0, [])"
| "collectPayloads db (employee # rest) =
     (let (skipped, batchPayload) = collectPayloads db rest
      in case buildPayloadForEmployee db (emp_id employee) of
           None \<Rightarrow> (skipped + 1, batchPayload)
         | Some payload \<Rightarrow> (skipped, payload # batchPayload))"

text \<open>
  \<^verbatim>\<open>POST /api/ml/predict\<close>, with the \<^verbatim>\<open>employeeId\<close> of the query string when there is one.
\<close>

definition api_ml_predict :: "Env \<Rightarrow> int option \<Rightarrow> DatabaseStorage \<Rightarrow> response effect" where
  "api_ml_predict env employeeIdParam db =
     (case employeeIdParam of
        Some eid \<Rightarrow>
          (case getEmployee db eid of
             None \<Rightarrow> (Inr (Response 404 (Message ''Employee not found'')), db, [])
           | Some employee \<Rightarrow>
               (case buildPayloadForEmployee db eid of
                  None \<Rightarrow> (Inr (Response 200 (Summary 0 1 0)), db, [])
                | Some payload \<Rightarrow>
                    (case runMlBatch env [payload] db of
                       (Inl e, db', calls) \<Rightarrow> (Inl e, db', calls)
                     | (Inr (BatchNotOk detail), db', calls) \<Rightarrow>
                         (Inr (Response 502 (MlServiceError ''ML service error'' detail)),
                          db', calls)
                     | (Inr (BatchOk p s k), db', calls) \<Rightarrow>
                         (Inr (Response 200 (Summary p 0 s)), db', calls))))
      | None \<Rightarrow>
          (let (skipped, batchPayload) = collectPayloads db (getEmployees db)
           in if length batchPayload = 0
              then (Inr (Response 200 (Summary 0 skipped 0)), db, [])
              else
                (case runMlBatch env batchPayload db of
                   (Inl e, db', calls) \<Rightarrow> (Inl e, db', calls)
                 | (Inr (BatchNotOk detail), db', calls) \<Rightarrow>
                     (Inr (Response 502 (MlServiceError ''ML service error'' detail)),
                      db', calls)
                 | (Inr (BatchOk p s k), db', calls) \<Rightarrow>
                     (Inr (Response 200 (Summary p (skipped + k) s)), db', calls))))"

text \<open>\<^verbatim>\<open>POST /api/ml/predict/:employeeId\<close>.\<close>

definition api_ml_predictOne :: "Env \<Rightarrow> int \<Rightarrow> DatabaseStorage \<Rightarrow> response effect" where
  "api_ml_predictOne env eid db =
     (case getEmployee db eid of
        None \<Rightarrow> (Inr (Response 404 (Message ''Employee not found'')), db, [])
      | Some employee \<Rightarrow>
          (case buildPayloadForEmployee db eid of
             None \<Rightarrow> (Inr (Response 200 (Summary 0 1 0)), db, [])
           | Some payload \<Rightarrow>
               (case runMlBatch env [payload] db of
                  (Inl e, db', calls) \<Rightarrow> (Inl e, db', calls)
                | (Inr (BatchNotOk detail), db', calls) \<Rightarrow>
                    (Inr (Response 502 (MlServiceError ''ML service error'' detail)),
                     db', calls)
                | (Inr (BatchOk p s k), db', calls) \<Rightarrow>
                    (Inr (Response 200 (Summary p k s)), db', calls))))"

text \<open>The three ways a prediction run is invoked.\<close>

datatype predict_request = PredictAll | PredictQuery int | PredictOne int

fun predict_route :: "Env \<Rightarrow> predict_request \<Rightarrow> DatabaseStorage \<Rightarrow> response effect" where
  "predict_route env PredictAll db = api_ml_predict env None db"
| "predict_route env (PredictQuery eid) db = api_ml_predict env (Some eid) db"
| "predict_route env (PredictOne eid) db = api_ml_predictOne env eid db"

section \<open>The team health route\<close>

text \<open>
  The trend: the scores of the last 14 days in buckets of one UTC calendar day, in the
  order the days are first met, then sorted by day. The source keys a bucket by the ISO
  date string \<^verbatim>\<open>YYYY-MM-DD\<close> and sorts with \<^verbatim>\<open>localeCompare\<close>; the model keys it by the day's
  number since the epoch, which has the same order for the years 0000 to 9999.
\<close>

record TrendBucket =
  tb_count :: nat
  tb_burnout :: jsnum
  tb_performance :: jsnum

record TrendPoint =
  tp_date :: int
  tp_burnout :: jsnum
  tp_performance :: jsnum

definition isoDay :: "int \<Rightarrow> int" where
  "isoDay t = t div 86400000"

fun trendMap_set :: "int \<Rightarrow> TrendBucket \<Rightarrow> (int \<times> TrendBucket) list \<Rightarrow> (int \<times> TrendBucket) list" where
  "trendMap_set k v [] = [(k, v)]"
| "trendMap_set k v ((k', v') # m) =
     (if k' = k then (k, v) # m else (k', v') # trendMap_set k v m)"

definition trendMap_add :: "(int \<times> TrendBucket) list \<Rightarrow> HealthScore \<Rightarrow> (int \<times> TrendBucket) list" where
  "trendMap_add trendMap h =
     (let dateStr = isoDay (date h);
          existing = (case map_of trendMap dateStr of
                        Some b \<Rightarrow> b
                      | None \<Rightarrow> \<lparr> tb_count = 0, tb_burnout = Fin 0, tb_performance = Fin 0 \<rparr>)
      in trendMap_set dateStr
           \<lparr> tb_count = tb_count existing + 1,
             tb_burnout = tb_burnout existing + burnoutRisk h,
             tb_performance = tb_performance existing + performanceScore h \<rparr>
           trendMap)"

definition trendPoint :: "int \<times> TrendBucket \<Rightarrow> TrendPoint" where
  "trendPoint entry =
     \<lparr> tp_date = fst entry,
       tp_burnout = Math_round (tb_burnout (snd entry) / Fin (of_nat (tb_count (snd entry)))),
       tp_performance =
         Math_round (tb_performance (snd entry) / Fin (of_nat (tb_count (snd entry)))) \<rparr>"

record TeamHealthResponse =
  healthScore :: jsnum
  r_burnoutRisk :: string
  r_growthPotential :: string
  engagementHealth :: string
  trendData :: "TrendPoint list"

text \<open>\<^verbatim>\<open>GET /api/team/health\<close>.\<close>

definition api_team_health ::
  "(int \<Rightarrow> int \<Rightarrow> int) \<Rightarrow> int \<Rightarrow> DatabaseStorage \<Rightarrow> TeamHealthResponse" where
  "api_team_health setDateBack now db =
     (let health = getLatestTeamHealth setDateBack now db;
          trendRaw = getTeamHealthTrend setDateBack now 14 db;
          trendMap = foldl trendMap_add [] trendRaw;
          trendData' = sort_key tp_date (map trendPoint trendMap);
          burnoutRisk' =
            (if th_burnoutRisk health > Fin 70 then ''High''
             else if th_burnoutRisk health > Fin 40 then ''Medium'' else ''Low'');
          growthPotential' =
            (if th_performanceScore health > Fin 80 \<and> th_engagementScore health > Fin 80
             then ''Emerging''
             else if th_performanceScore health < Fin 50 then ''Stalled'' else ''Steady'');
          engagementHealth' =
            (if th_workloadScore health > Fin 80 then ''Overloaded''
             else if th_engagementScore health < Fin 40 then ''Disconnected''
             else ''Balanced'')
      in \<lparr> healthScore =
             Math_round ((th_engagementScore health + th_performanceScore health) / Fin 2),
           r_burnoutRisk = burnoutRisk',
           r_growthPotential = growthPotential',
           engagementHealth = engagementHealth',
           trendData = trendData' \<rparr>)"

section \<open>Example stores\<close>

text \<open>
  A store with two employees: the first has five weekly metrics (stored out of order) and
  a prediction created at time 1000000, the second has three weekly metrics and no
  prediction.
\<close>

definition example_metric :: "int \<Rightarrow> int \<Rightarrow> int \<Rightarrow> EmployeeWeeklyMetric" where
  "example_metric i e w =
     \<lparr> wm_id = i, wm_employeeId = e, weekStart = w,
       tasksAssigned = Fin 20, tasksCompleted = Fin 18, missedDeadlines = Fin 1,
       meetingHours = Fin 5, collaborationScore = Fin (8 / 10),
       wm_engagementScore = Fin (75 / 100), learningHours = Fin 2,
       stretchAssignments = Fin 1, wm_createdAt = Some w \<rparr>"

definition example_prediction :: EmployeeMlPrediction where
  "example_prediction =
     \<lparr> mp_employeeId = 1, windowStart = 100, windowEnd = 400,
       mp_burnoutRisk = ''Low'', burnoutConfidence = Fin (9 / 10),
       performanceTrend = ''Stable'', performanceConfidence = Fin (8 / 10),
       growthPotential = ''Steady'', growthConfidence = Fin (7 / 10),
       topFeatures = \<lparr> tf_burnout = [], tf_performance = [], tf_growth = [] \<rparr>,
       recommendations = [], explanation = [],
       mp_id = 1, createdAt = Some 1000000 \<rparr>"

definition db_example :: DatabaseStorage where
  "db_example =
     \<lparr> employees =
         [\<lparr> emp_id = 1, emp_name = ''Ada'', emp_role = ''Engineer'',
            department = ''Engineering'', email = ''ada@pulse.ai'', joinedAt = None \<rparr>,
          \<lparr> emp_id = 2, emp_name = ''Ben'', emp_role = ''Designer'',
            department = ''Design'', email = ''ben@pulse.ai'', joinedAt = None \<rparr>],
       healthScores = [],
       employeeWeeklyMetrics =
         [example_metric 1 1 300, example_metric 2 2 100, example_metric 3 1 100,
          example_metric 4 1 500, example_metric 5 2 200, example_metric 6 1 200,
          example_metric 7 1 400, example_metric 8 2 300],
       employeeMlPredictions = [example_prediction],
       healthScores_id_seq = 1,
       employeeMlPredictions_id_seq = 2 \<rparr>"

text \<open>
  The payload of the first employee: the weeks 200, 300, 400 and 500, oldest first.
\<close>

definition example_payload :: EmployeePayload where
  "example_payload =
     \<lparr> employee_id = 1,
       weeks = map weekPayload
         [example_metric 6 1 200, example_metric 1 1 300,
          example_metric 7 1 400, example_metric 4 1 500] \<rparr>"

text \<open>One week of that payload, field by field.\<close>

definition example_week :: "int \<Rightarrow> WeekPayload" where
  "example_week w =
     \<lparr> week_start = w, tasks_assigned = Fin 20, tasks_completed = Fin 18,
       missed_deadlines = Fin 1, meeting_hours = Fin 5,
       collaboration_score = Fin (8 / 10), engagement_score = Fin (75 / 100),
       learning_hours = Fin 2, stretch_assignments = Fin 1 \<rparr>"

text \<open>
  The service is down (it answers every request with a status that is not \<^verbatim>\<open>ok\<close>), the
  cache lifetime is the default; the run starts 10 seconds after the prediction was
  created, or 301 seconds after.
\<close>

definition env_fresh :: Env where
  "env_fresh =
     \<lparr> mlService = (\<lambda>employees. NotOk ''model not loaded''),
       cacheTtlMs = default_cacheTtlMs, Date_now = 1010000, db_now = 1010050 \<rparr>"

definition env_stale :: Env where
  "env_stale =
     \<lparr> mlService = (\<lambda>employees. NotOk ''model not loaded''),
       cacheTtlMs = default_cacheTtlMs, Date_now = 1301000, db_now = 1301050 \<rparr>"

text \<open>
  A store whose only health score is older than a week at time 1700000000, and three
  scores to upsert: the second has the key of the stored row, the first and the third
  share another key.
\<close>

definition old_score :: HealthScore where
  "old_score =
     \<lparr> employeeId = 1, burnoutRisk = Fin 90, engagementScore = Fin 90,
       performanceScore = Fin 90, workloadScore = Fin 90,
       date = 1000000000, hs_id = 1 \<rparr>"

definition db_old_score :: DatabaseStorage where
  "db_old_score =
     \<lparr> employees = [], healthScores = [old_score],
       employeeWeeklyMetrics = [], employeeMlPredictions = [],
       healthScores_id_seq = 2, employeeMlPredictions_id_seq = 1 \<rparr>"

definition score_a :: InsertHealthScore where
  "score_a =
     \<lparr> employeeId = 2, burnoutRisk = Fin 10, engagementScore = Fin 20,
       performanceScore = Fin 30, workloadScore = Fin 40, date = 1000000000 \<rparr>"

definition score_b :: InsertHealthScore where
  "score_b =
     \<lparr> employeeId = 1, burnoutRisk = Fin 29, engagementScore = Fin 75,
       performanceScore = Fin 84, workloadScore = Fin 47, date = 1000000000 \<rparr>"

definition score_c :: InsertHealthScore where
  "score_c =
     \<lparr> employeeId = 2, burnoutRisk = Fin 11, engagementScore = Fin 21,
       performanceScore = Fin 31, workloadScore = Fin 41, date = 1000000000 \<rparr>"

text \<open>
  A store whose only health score is dated one day after the time 1700000000000.
\<close>

definition db_future_score :: DatabaseStorage where
  "db_future_score =
     \<lparr> employees = [],
       healthScores =
         [\<lparr> employeeId = 1, burnoutRisk = Fin 90, engagementScore = Fin 90,
            performanceScore = Fin 90, workloadScore = Fin 90,
            date = 1700086400000, hs_id = 1 \<rparr>],
       employeeWeeklyMetrics = [], employeeMlPredictions = [],
       healthScores_id_seq = 2, employeeMlPredictions_id_seq = 1 \<rparr>"

text \<open>The store with no rows.\<close>

definition db_empty :: DatabaseStorage where
  "db_empty =
     \<lparr> employees = [], healthScores = [], employeeWeeklyMetrics = [],
       employeeMlPredictions = [], healthScores_id_seq = 1,
       employeeMlPredictions_id_seq = 1 \<rparr>"

section \<open>Arithmetic on finite numbers\<close>

lemma plus_Fin [simp]: "Fin a + Fin b = Fin (a + b)"
  by (simp add: plus_jsnum_def)

lemma minus_Fin [simp]: "Fin a - Fin b = Fin (a - b)"
  by (simp add: minus_jsnum_def)

lemma times_Fin [simp]: "Fin a * Fin b = Fin (a * b)"
  by (simp add: times_jsnum_def)

lemma divide_Fin [simp]: "b \<noteq> 0 \<Longrightarrow> Fin a / Fin b = Fin (a / b)"
  by (simp add: divide_jsnum_def)

lemma less_eq_Fin [simp]: "(Fin a \<le> Fin b) = (a \<le> b)"
  by (simp add: less_eq_jsnum_def)

lemma less_Fin [simp]: "(Fin a < Fin b) = (a < b)"
  by (simp add: less_jsnum_def)

lemma Math_max_Fin [simp]: "Math_max (Fin a) (Fin b) = Fin (max a b)"
  by (simp add: Math_max_def max_def)

lemma Math_min_Fin [simp]: "Math_min (Fin a) (Fin b) = Fin (min a b)"
  by (simp add: Math_min_def min_def)

lemma clamp100_Fin [simp]: "clamp100 (Fin r) = Fin (max 0 (min 100 r))"
  by (simp add: clamp100_def clamp_def)

lemma toPercent_Fin [simp]: "toPercent (Fin r) = Fin (if r \<le> 3 / 2 then r * 100 else r)"
  by (simp add: toPercent_def)



lemma normalize_NaN: "clamp100 (toPercent NaN) = Fin 0"
  by (simp add: toPercent_def)

lemma normalize_NInf: "clamp100 (toPercent NInf) = Fin 0"
  by (simp add: clamp100_def clamp_def toPercent_def Math_max_def Math_min_def
      less_eq_jsnum_def times_jsnum_def)

lemma normalize_PInf: "clamp100 (toPercent PInf) = Fin 100"
  by (simp add: clamp100_def clamp_def toPercent_def Math_max_def Math_min_def
      less_eq_jsnum_def)

section \<open>The health score: the scenario, the range, the normalizer\<close>

text \<open>
  C1. The metric with 20 tasks assigned, 18 completed, 1 missed deadline, 5 meeting hours,
  collaboration 0.8, engagement 0.75, 2 learning hours and 1 stretch assignment gets the
  workload score 47, the performance score 84, the burnout risk 29 and the engagement score
  75; the health score carries the metric's employee id, and its week start as the date,
  whatever they are.
\<close>

theorem health_score_scenario:
  "computeHealthScoreFromMetric
     \<lparr> wm_id = i, wm_employeeId = e, weekStart = w,
       tasksAssigned = Fin 20, tasksCompleted = Fin 18, missedDeadlines = Fin 1,
       meetingHours = Fin 5, collaborationScore = Fin (8 / 10),
       wm_engagementScore = Fin (75 / 100), learningHours = Fin 2,
       stretchAssignments = Fin 1, wm_createdAt = c \<rparr>
   = \<lparr> employeeId = e, burnoutRisk = Fin 29, engagementScore = Fin 75,
       performanceScore = Fin 84, workloadScore = Fin 47, date = w \<rparr>"
  by (simp add: computeHealthScoreFromMetric_def Let_def)

subsection \<open>The range of the scores, in double arithmetic\<close>



























text \<open>
  C3, as the code has it. The normalizer of a raw score is \<open>clamp100 (toPercent v)\<close>. It
  is 0 for NaN; for every other value it is the clamp of \<open>v * 100\<close> when \<open>v \<le> 1.5\<close> and the
  clamp of \<open>v\<close> when \<open>v > 1.5\<close>, which on a finite value is the real number in the second
  line. Of the two infinities, the negative one gives 0 and the positive one 100.
\<close>

theorem normalizer_cases:
  "clamp100 (toPercent v) =
     (if isNaN v then Fin 0
      else if v \<le> Fin (3 / 2) then clamp (v * Fin 100) (Fin 0) (Fin 100)
      else clamp v (Fin 0) (Fin 100))
   \<and> clamp100 (toPercent (Fin r)) =
       Fin (if r \<le> 3 / 2 then max 0 (min 100 (r * 100)) else max 0 (min 100 r))
   \<and> clamp100 (toPercent NaN) = Fin 0
   \<and> clamp100 (toPercent NInf) = Fin 0
   \<and> clamp100 (toPercent PInf) = Fin 100"
proof -
  have "clamp100 (toPercent v) =
     (if isNaN v then Fin 0
      else if v \<le> Fin (3 / 2) then clamp (v * Fin 100) (Fin 0) (Fin 100)
      else clamp v (Fin 0) (Fin 100))"
    by (cases v) (simp_all add: toPercent_def clamp100_def clamp_def)
  moreover have "clamp100 (toPercent (Fin r)) =
       Fin (if r \<le> 3 / 2 then max 0 (min 100 (r * 100)) else max 0 (min 100 r))"
    by simp
  ultimately show ?thesis
    using normalize_NaN normalize_NInf normalize_PInf by blast
qed

text \<open>
  The claim C3 as stated, that every non-finite value gives 0, fails at positive infinity:
  it is not at most 1.5, so it is kept, and its clamp is 100.
\<close>

theorem normalizer_infinity_counterexample:
  "clamp100 (toPercent PInf) = Fin 100 \<and> clamp100 (toPercent PInf) \<noteq> Fin 0"
  by (simp add: normalize_PInf)

text \<open>
  C10. The normalizer is not monotone: 1.4 is below 1.6, yet 1.4 is normalized to 100
  (140, clamped) and 1.6 to 1.6.
\<close>

theorem normalizer_not_monotone:
  "clamp100 (toPercent (Fin (14 / 10))) = Fin 100
   \<and> clamp100 (toPercent (Fin (16 / 10))) = Fin (16 / 10)
   \<and> (\<exists>s1 s2 :: real. s1 < s2
        \<and> clamp100 (toPercent (Fin s2)) < clamp100 (toPercent (Fin s1)))"
proof -
  have "(14 / 10 :: real) < 16 / 10
      \<and> clamp100 (toPercent (Fin (16 / 10))) < clamp100 (toPercent (Fin (14 / 10)))"
    by simp
  then have "\<exists>s1 s2 :: real. s1 < s2
        \<and> clamp100 (toPercent (Fin s2)) < clamp100 (toPercent (Fin s1))"
    by blast
  then show ?thesis by simp
qed

section \<open>The health score table under upserts\<close>

subsection \<open>Searching a list of rows\<close>

lemma find_SomeD: "List.find P xs = Some x \<Longrightarrow> P x \<and> x \<in> set xs"
  by (induction xs) (auto split: if_splits)

lemma find_map_option: "List.find P (map f xs) = map_option f (List.find (\<lambda>x. P (f x)) xs)"
  by (induction xs) simp_all

lemma find_append_case:
  "List.find P (xs @ ys) = (case List.find P xs of None \<Rightarrow> List.find P ys | Some x \<Rightarrow> Some x)"
  by (induction xs) simp_all

lemma same_id_same_row:
  "distinct (map hs_id rows) \<Longrightarrow> h \<in> set rows \<Longrightarrow> ex \<in> set rows \<Longrightarrow> hs_id h = hs_id ex \<Longrightarrow> h = ex"
  by (simp add: distinct_map inj_on_def)

lemma find_by_id:
  "distinct (map hs_id rows) \<Longrightarrow> ex \<in> set rows
    \<Longrightarrow> List.find (\<lambda>h. hs_id h = hs_id ex) rows = Some ex"
  by (induction rows) (auto simp: image_iff)


subsection \<open>One upsert\<close>

lemma set_scores_id: "hs_id (set_scores s h) = hs_id h"
  by (simp add: set_scores_def)

lemma set_scores_key: "hs_key h = hs_key s \<Longrightarrow> hs_key (set_scores s h) = hs_key h"
  by (simp add: set_scores_def hs_key_def)

lemma set_scores_values:
  "burnoutRisk (set_scores s h) = burnoutRisk s"
  "engagementScore (set_scores s h) = engagementScore s"
  "performanceScore (set_scores s h) = performanceScore s"
  "workloadScore (set_scores s h) = workloadScore s"
  by (simp_all add: set_scores_def)

lemma update_row_id: "hs_id (update_row s ex h) = hs_id h"
  by (simp add: update_row_def set_scores_id)

lemma update_row_key:
  assumes "distinct (map hs_id rows)" "ex \<in> set rows" "hs_key ex = hs_key s" "h \<in> set rows"
  shows "hs_key (update_row s ex h) = hs_key h"
proof (cases "hs_id h = hs_id ex")
  case True
  then have "h = ex" using assms same_id_same_row by blast
  then show ?thesis using assms by (simp add: update_row_def set_scores_key)
next
  case False then show ?thesis by (simp add: update_row_def)
qed

lemma update_row_other:
  assumes "distinct (map hs_id rows)" "ex \<in> set rows" "h \<in> set rows" "hs_key h \<noteq> hs_key ex"
  shows "update_row s ex h = h"
proof -
  have "hs_id h \<noteq> hs_id ex" using assms same_id_same_row by blast
  then show ?thesis by (simp add: update_row_def)
qed

lemma upsert_update:
  assumes "hs_lookup (hs_key s) db = Some ex" "hs_primary_key db"
  shows "upsertHealthScore s db =
     (Some (set_scores s ex), db\<lparr> healthScores := map (update_row s ex) (healthScores db) \<rparr>)"
proof -
  have ex: "ex \<in> set (healthScores db)"
    using assms(1) find_SomeD unfolding hs_lookup_def by fastforce
  have d: "distinct (map hs_id (healthScores db))"
    using assms(2) by (simp add: hs_primary_key_def)
  have f: "List.find (\<lambda>h. employeeId h = employeeId s \<and> date h = date s) (healthScores db) = Some ex"
    using assms(1) by (simp add: hs_lookup_def hs_key_def)
  have "List.find (\<lambda>h. hs_id h = hs_id ex) (map (update_row s ex) (healthScores db))
      = map_option (update_row s ex)
          (List.find (\<lambda>h. hs_id (update_row s ex h) = hs_id ex) (healthScores db))"
    by (rule find_map_option)
  also have "\<dots> = map_option (update_row s ex) (Some ex)"
    by (simp only: update_row_id find_by_id [OF d ex])
  also have "\<dots> = Some (set_scores s ex)"
    by (simp add: update_row_def)
  finally have "List.find (\<lambda>h. hs_id h = hs_id ex) (map (update_row s ex) (healthScores db))
      = Some (set_scores s ex)" .
  then show ?thesis
    unfolding upsertHealthScore_def f by (simp add: Let_def update_row_def [abs_def])
qed

lemma upsert_insert:
  assumes "hs_lookup (hs_key s) db = None"
  shows "upsertHealthScore s db =
     (Some \<lparr> employeeId = employeeId s, burnoutRisk = burnoutRisk s,
              engagementScore = engagementScore s, performanceScore = performanceScore s,
              workloadScore = workloadScore s, date = date s,
              hs_id = healthScores_id_seq db \<rparr>,
      db\<lparr> healthScores := healthScores db @
            [\<lparr> employeeId = employeeId s, burnoutRisk = burnoutRisk s,
               engagementScore = engagementScore s, performanceScore = performanceScore s,
               workloadScore = workloadScore s, date = date s,
               hs_id = healthScores_id_seq db \<rparr>],
          healthScores_id_seq := healthScores_id_seq db + 1 \<rparr>)"
proof -
  have f: "List.find (\<lambda>h. employeeId h = employeeId s \<and> date h = date s) (healthScores db) = None"
    using assms by (simp add: hs_lookup_def hs_key_def)
  show ?thesis unfolding upsertHealthScore_def f by (simp add: Let_def)
qed


text \<open>The ids and keys of the rows after one upsert, and the serial counter.\<close>

lemma upsert_id_keys:
  assumes "hs_primary_key db"
  shows "map (\<lambda>h. (hs_id h, hs_key h)) (healthScores (snd (upsertHealthScore s db)))
       = map (\<lambda>h. (hs_id h, hs_key h)) (healthScores db)
         @ (case hs_lookup (hs_key s) db of
              None \<Rightarrow> [(healthScores_id_seq db, hs_key s)] | Some ex \<Rightarrow> [])"
    and "healthScores_id_seq db \<le> healthScores_id_seq (snd (upsertHealthScore s db))"
    and "hs_lookup (hs_key s) db = None
       \<Longrightarrow> healthScores_id_seq (snd (upsertHealthScore s db)) = healthScores_id_seq db + 1"
proof -
  have d: "distinct (map hs_id (healthScores db))"
    using assms by (simp add: hs_primary_key_def)
  show "map (\<lambda>h. (hs_id h, hs_key h)) (healthScores (snd (upsertHealthScore s db)))
       = map (\<lambda>h. (hs_id h, hs_key h)) (healthScores db)
         @ (case hs_lookup (hs_key s) db of
              None \<Rightarrow> [(healthScores_id_seq db, hs_key s)] | Some ex \<Rightarrow> [])"
  proof (cases "hs_lookup (hs_key s) db")
    case None
    then show ?thesis by (simp add: upsert_insert hs_key_def)
  next
    case (Some ex)
    then have ex: "ex \<in> set (healthScores db)" "hs_key ex = hs_key s"
      using find_SomeD unfolding hs_lookup_def by fastforce+
    have "\<And>h. h \<in> set (healthScores db)
        \<Longrightarrow> (hs_id (update_row s ex h), hs_key (update_row s ex h)) = (hs_id h, hs_key h)"
      using update_row_key [OF d ex] by (simp add: update_row_id)
    then show ?thesis using Some by (simp add: upsert_update [OF Some assms])
  qed
  show "healthScores_id_seq db \<le> healthScores_id_seq (snd (upsertHealthScore s db))"
    by (cases "hs_lookup (hs_key s) db") (simp_all add: upsert_insert upsert_update assms)
  show "hs_lookup (hs_key s) db = None
       \<Longrightarrow> healthScores_id_seq (snd (upsertHealthScore s db)) = healthScores_id_seq db + 1"
    by (simp add: upsert_insert)
qed

lemma ids_keys_split:
  "map hs_id rows = map fst (map (\<lambda>h. (hs_id h, hs_key h)) rows)"
  "map hs_key rows = map snd (map (\<lambda>h. (hs_id h, hs_key h)) rows)"
  by simp_all

lemma upsert_inv:
  assumes "hs_inv db"
  shows "hs_inv (snd (upsertHealthScore s db))"
proof -
  let ?db = "snd (upsertHealthScore s db)"
  have pk: "hs_primary_key db" and dk: "distinct (map hs_key (healthScores db))"
    using assms by (simp_all add: hs_inv_def)
  note ik = upsert_id_keys [OF pk, of s]
  show ?thesis
  proof (cases "hs_lookup (hs_key s) db")
    case None
    have ids: "map hs_id (healthScores ?db) = map hs_id (healthScores db) @ [healthScores_id_seq db]"
      and keys: "map hs_key (healthScores ?db) = map hs_key (healthScores db) @ [hs_key s]"
      unfolding ids_keys_split ik(1) None by simp_all
    have fresh: "hs_key s \<notin> set (map hs_key (healthScores db))"
      using None by (auto simp: hs_lookup_def find_None_iff)
    have lt: "\<forall>h \<in> set (healthScores db). hs_id h < healthScores_id_seq db"
      using pk by (simp add: hs_primary_key_def list_all_iff)
    then have new: "healthScores_id_seq db \<notin> set (map hs_id (healthScores db))" by auto
    have "list_all (\<lambda>i. i < healthScores_id_seq ?db) (map hs_id (healthScores ?db))"
      unfolding ids ik(3) [OF None] using lt by (auto simp: list_all_iff)
    then have "list_all (\<lambda>h. hs_id h < healthScores_id_seq ?db) (healthScores ?db)"
      by (simp add: list_all_iff)
    moreover have "distinct (map hs_id (healthScores ?db))"
      unfolding ids using pk new by (simp add: hs_primary_key_def)
    moreover have "distinct (map hs_key (healthScores ?db))"
      unfolding keys using dk fresh by simp
    ultimately show ?thesis by (simp add: hs_inv_def hs_primary_key_def)
  next
    case (Some ex)
    have ids: "map hs_id (healthScores ?db) = map hs_id (healthScores db)"
      and keys: "map hs_key (healthScores ?db) = map hs_key (healthScores db)"
      unfolding ids_keys_split ik(1) Some by simp_all
    have lt: "\<forall>i \<in> set (map hs_id (healthScores db)). i < healthScores_id_seq db"
      using pk by (simp add: hs_primary_key_def list_all_iff)
    have "\<forall>i \<in> set (map hs_id (healthScores ?db)). i < healthScores_id_seq ?db"
      unfolding ids using lt ik(2) by fastforce
    then have "list_all (\<lambda>h. hs_id h < healthScores_id_seq ?db) (healthScores ?db)"
      by (simp add: list_all_iff)
    moreover have "distinct (map hs_id (healthScores ?db))"
      unfolding ids using pk by (simp add: hs_primary_key_def)
    moreover have "distinct (map hs_key (healthScores ?db))"
      unfolding keys using dk by simp
    ultimately show ?thesis by (simp add: hs_inv_def hs_primary_key_def)
  qed
qed


text \<open>
  The row of the upserted key has the score's values; the row of another key is untouched.
\<close>

lemma upsert_lookup_same:
  assumes "hs_primary_key db"
  shows "\<exists>h. hs_lookup (hs_key s) (snd (upsertHealthScore s db)) = Some h
     \<and> burnoutRisk h = burnoutRisk s \<and> engagementScore h = engagementScore s
     \<and> performanceScore h = performanceScore s \<and> workloadScore h = workloadScore s"
proof (cases "hs_lookup (hs_key s) db")
  case None
  then have "List.find (\<lambda>h. hs_key h = hs_key s) (healthScores db) = None"
    by (simp add: hs_lookup_def)
  then show ?thesis
    by (simp add: upsert_insert [OF None] hs_lookup_def find_append_case hs_key_def)
next
  case (Some ex)
  have d: "distinct (map hs_id (healthScores db))"
    using assms by (simp add: hs_primary_key_def)
  have ex: "ex \<in> set (healthScores db)" "hs_key ex = hs_key s"
    using Some find_SomeD unfolding hs_lookup_def by fastforce+
  have "List.find (\<lambda>h. hs_key (update_row s ex h) = hs_key s) (healthScores db)
      = List.find (\<lambda>h. hs_key h = hs_key s) (healthScores db)"
    by (rule find_cong) (simp_all add: update_row_key [OF d ex])
  then have "hs_lookup (hs_key s) (snd (upsertHealthScore s db)) = Some (update_row s ex ex)"
    using Some by (simp add: upsert_update [OF Some assms] hs_lookup_def find_map_option)
  then show ?thesis by (simp add: update_row_def set_scores_values)
qed

lemma upsert_lookup_other:
  assumes "hs_primary_key db" "hs_key s \<noteq> k"
  shows "hs_lookup k (snd (upsertHealthScore s db)) = hs_lookup k db"
proof (cases "hs_lookup (hs_key s) db")
  case None
  then show ?thesis using assms(2)
    by (simp add: upsert_insert [OF None] hs_lookup_def find_append_case hs_key_def
        split: option.split)
next
  case (Some ex)
  have d: "distinct (map hs_id (healthScores db))"
    using assms by (simp add: hs_primary_key_def)
  have ex: "ex \<in> set (healthScores db)" "hs_key ex = hs_key s"
    using Some find_SomeD unfolding hs_lookup_def by fastforce+
  have same: "List.find (\<lambda>h. hs_key (update_row s ex h) = k) (healthScores db)
      = List.find (\<lambda>h. hs_key h = k) (healthScores db)"
    by (rule find_cong) (simp_all add: update_row_key [OF d ex])
  have "map_option (update_row s ex) (List.find (\<lambda>h. hs_key h = k) (healthScores db))
      = List.find (\<lambda>h. hs_key h = k) (healthScores db)"
  proof (cases "List.find (\<lambda>h. hs_key h = k) (healthScores db)")
    case None then show ?thesis by simp
  next
    case (Some h)
    then have "h \<in> set (healthScores db)" "hs_key h = k" using find_SomeD by fastforce+
    then have "update_row s ex h = h"
      using update_row_other [OF d ex(1)] ex(2) assms(2) by simp
    then show ?thesis using Some by simp
  qed
  then show ?thesis
    by (simp add: upsert_update [OF Some assms(1)] hs_lookup_def find_map_option same)
qed


subsection \<open>A sequence of upserts\<close>

lemma upsertAll_inv: "hs_inv db \<Longrightarrow> hs_inv (upsertAll scores db)"
  by (induction scores arbitrary: db) (simp_all add: upsert_inv)

lemma upsertAll_lookup_other:
  "hs_inv db \<Longrightarrow> \<forall>s \<in> set scores. hs_key s \<noteq> k
    \<Longrightarrow> hs_lookup k (upsertAll scores db) = hs_lookup k db"
proof (induction scores arbitrary: db)
  case Nil then show ?case by simp
next
  case (Cons a scores)
  have "hs_lookup k (upsertAll scores (snd (upsertHealthScore a db)))
      = hs_lookup k (snd (upsertHealthScore a db))"
    using Cons by (simp add: upsert_inv)
  also have "\<dots> = hs_lookup k db"
    using Cons.prems by (simp add: upsert_lookup_other hs_inv_def)
  finally show ?case by simp
qed

lemma upsertAll_lookup_last:
  "hs_inv db \<Longrightarrow> List.find (\<lambda>s. hs_key s = k) (rev scores) = Some s
    \<Longrightarrow> \<exists>h. hs_lookup k (upsertAll scores db) = Some h
     \<and> burnoutRisk h = burnoutRisk s \<and> engagementScore h = engagementScore s
     \<and> performanceScore h = performanceScore s \<and> workloadScore h = workloadScore s"
proof (induction scores arbitrary: db)
  case Nil then show ?case by simp
next
  case (Cons a scores)
  let ?db = "snd (upsertHealthScore a db)"
  have inv: "hs_inv ?db" using Cons.prems(1) by (rule upsert_inv)
  show ?case
  proof (cases "List.find (\<lambda>s. hs_key s = k) (rev scores)")
    case (Some s')
    then have "s' = s" using Cons.prems(2) by (simp add: find_append_case)
    then show ?thesis using Cons.IH [OF inv] Some by simp
  next
    case None
    then have a: "hs_key a = k" "a = s"
      using Cons.prems(2) by (simp_all add: find_append_case split: if_splits)
    have "\<forall>s \<in> set scores. hs_key s \<noteq> k"
      using None by (simp add: find_None_iff)
    then have "hs_lookup k (upsertAll scores ?db) = hs_lookup k ?db"
      using inv by (rule upsertAll_lookup_other [rotated])
    then show ?thesis
      using upsert_lookup_same [of db a] Cons.prems(1) a by (simp add: hs_inv_def)
  qed
qed

lemma upsertAll_id_keys:
  "hs_inv db \<Longrightarrow>
    take (length (healthScores db))
      (map (\<lambda>h. (hs_id h, hs_key h)) (healthScores (upsertAll scores db)))
    = map (\<lambda>h. (hs_id h, hs_key h)) (healthScores db)"
proof (induction scores arbitrary: db)
  case Nil then show ?case by simp
next
  case (Cons a scores)
  let ?db = "snd (upsertHealthScore a db)"
  let ?ik = "\<lambda>h. (hs_id h, hs_key h)"
  have inv: "hs_inv ?db" using Cons.prems by (rule upsert_inv)
  have pk: "hs_primary_key db" using Cons.prems by (simp add: hs_inv_def)
  obtain extra where step: "map ?ik (healthScores ?db) = map ?ik (healthScores db) @ extra"
    using upsert_id_keys(1) [OF pk, of a] by blast
  then have len: "length (healthScores db) \<le> length (healthScores ?db)"
    by (metis length_append length_map le_add1)
  have "take (length (healthScores db)) (map ?ik (healthScores (upsertAll scores ?db)))
      = take (length (healthScores db))
          (take (length (healthScores ?db)) (map ?ik (healthScores (upsertAll scores ?db))))"
    using len by (simp add: min_def)
  also have "\<dots> = take (length (healthScores db)) (map ?ik (healthScores ?db))"
    using Cons.IH [OF inv] by simp
  also have "\<dots> = map ?ik (healthScores db)"
    unfolding step by simp
  finally show ?case by simp
qed


text \<open>
  C6. From a table that satisfies its primary key and has at most one row for each
  (employee, date), after any sequence of upserts: the table again has at most one row
  for each (employee, date); the row of a key holds the four scores of the last upsert of
  the sequence with that key; the rows that were there keep their ids and keys, at their
  places. An upsert whose key is stored returns the stored row with the scores set,
  under the same id, and leaves the ids and keys of all rows and the serial counter as
  they were: no row is deleted or created.
\<close>

theorem upsert_unique_latest_in_place:
  assumes "hs_primary_key db" "distinct (map hs_key (healthScores db))"
  shows "distinct (map hs_key (healthScores (upsertAll scores db)))
     \<and> (List.find (\<lambda>s. hs_key s = k) (rev scores) = Some s \<longrightarrow>
          (\<exists>h. hs_lookup k (upsertAll scores db) = Some h
             \<and> burnoutRisk h = burnoutRisk s \<and> engagementScore h = engagementScore s
             \<and> performanceScore h = performanceScore s \<and> workloadScore h = workloadScore s))
     \<and> take (length (healthScores db))
          (map (\<lambda>h. (hs_id h, hs_key h)) (healthScores (upsertAll scores db)))
        = map (\<lambda>h. (hs_id h, hs_key h)) (healthScores db)
     \<and> (hs_lookup (hs_key score) db = Some existing \<longrightarrow>
          fst (upsertHealthScore score db) = Some (set_scores score existing)
          \<and> hs_id (set_scores score existing) = hs_id existing
          \<and> map (\<lambda>h. (hs_id h, hs_key h)) (healthScores (snd (upsertHealthScore score db)))
            = map (\<lambda>h. (hs_id h, hs_key h)) (healthScores db)
          \<and> healthScores_id_seq (snd (upsertHealthScore score db)) = healthScores_id_seq db)"
proof -
  have inv: "hs_inv db" using assms by (simp add: hs_inv_def)
  have "distinct (map hs_key (healthScores (upsertAll scores db)))"
    using upsertAll_inv [OF inv] by (simp add: hs_inv_def)
  moreover have "List.find (\<lambda>s. hs_key s = k) (rev scores) = Some s \<longrightarrow>
          (\<exists>h. hs_lookup k (upsertAll scores db) = Some h
             \<and> burnoutRisk h = burnoutRisk s \<and> engagementScore h = engagementScore s
             \<and> performanceScore h = performanceScore s \<and> workloadScore h = workloadScore s)"
    using upsertAll_lookup_last [OF inv] by blast
  moreover have "take (length (healthScores db))
          (map (\<lambda>h. (hs_id h, hs_key h)) (healthScores (upsertAll scores db)))
        = map (\<lambda>h. (hs_id h, hs_key h)) (healthScores db)"
    using inv by (rule upsertAll_id_keys)
  moreover have "hs_lookup (hs_key score) db = Some existing \<longrightarrow>
          fst (upsertHealthScore score db) = Some (set_scores score existing)
          \<and> hs_id (set_scores score existing) = hs_id existing
          \<and> map (\<lambda>h. (hs_id h, hs_key h)) (healthScores (snd (upsertHealthScore score db)))
            = map (\<lambda>h. (hs_id h, hs_key h)) (healthScores db)
          \<and> healthScores_id_seq (snd (upsertHealthScore score db)) = healthScores_id_seq db"
  proof
    assume ex: "hs_lookup (hs_key score) db = Some existing"
    have "map (\<lambda>h. (hs_id h, hs_key h)) (healthScores (snd (upsertHealthScore score db)))
            = map (\<lambda>h. (hs_id h, hs_key h)) (healthScores db)"
      using upsert_id_keys(1) [OF assms(1), of score] ex by simp
    then show "fst (upsertHealthScore score db) = Some (set_scores score existing)
          \<and> hs_id (set_scores score existing) = hs_id existing
          \<and> map (\<lambda>h. (hs_id h, hs_key h)) (healthScores (snd (upsertHealthScore score db)))
            = map (\<lambda>h. (hs_id h, hs_key h)) (healthScores db)
          \<and> healthScores_id_seq (snd (upsertHealthScore score db)) = healthScores_id_seq db"
      by (simp add: upsert_update [OF ex assms(1)] set_scores_id)
  qed
  ultimately show ?thesis by blast
qed

theorem upsert_unique_latest_in_place_witness:
  "distinct (map hs_key (healthScores (upsertAll [score_a, score_b, score_c] db_old_score)))
   \<and> (\<exists>h. hs_lookup (2, 1000000000) (upsertAll [score_a, score_b, score_c] db_old_score) = Some h
        \<and> burnoutRisk h = burnoutRisk score_c \<and> engagementScore h = engagementScore score_c
        \<and> performanceScore h = performanceScore score_c
        \<and> workloadScore h = workloadScore score_c)
   \<and> take (length (healthScores db_old_score))
        (map (\<lambda>h. (hs_id h, hs_key h))
          (healthScores (upsertAll [score_a, score_b, score_c] db_old_score)))
      = map (\<lambda>h. (hs_id h, hs_key h)) (healthScores db_old_score)
   \<and> fst (upsertHealthScore score_b db_old_score) = Some (set_scores score_b old_score)
   \<and> hs_id (set_scores score_b old_score) = hs_id old_score
   \<and> map (\<lambda>h. (hs_id h, hs_key h)) (healthScores (snd (upsertHealthScore score_b db_old_score)))
      = map (\<lambda>h. (hs_id h, hs_key h)) (healthScores db_old_score)
   \<and> healthScores_id_seq (snd (upsertHealthScore score_b db_old_score))
      = healthScores_id_seq db_old_score"
proof -
  have pk: "hs_primary_key db_old_score"
    by (simp add: hs_primary_key_def db_old_score_def old_score_def)
  have dk: "distinct (map hs_key (healthScores db_old_score))"
    by (simp add: db_old_score_def)
  have last: "List.find (\<lambda>s. hs_key s = (2, 1000000000)) (rev [score_a, score_b, score_c])
      = Some score_c"
    by (simp add: hs_key_def score_c_def)
  have ex: "hs_lookup (hs_key score_b) db_old_score = Some old_score"
    by (simp add: hs_lookup_def hs_key_def score_b_def db_old_score_def old_score_def)
  from upsert_unique_latest_in_place [OF pk dk, of "[score_a, score_b, score_c]"
      "(2, 1000000000)" score_c score_b old_score] last ex
  show ?thesis by blast
qed


section \<open>The team health route without recent scores\<close>

lemma getLatestTeamHealth_none:
  assumes "\<forall>h \<in> set (healthScores db). date h < setDateBack now 7"
  shows "getLatestTeamHealth setDateBack now db =
     \<lparr> th_burnoutRisk = Fin 0, th_engagementScore = Fin 0,
       th_performanceScore = Fin 0, th_workloadScore = Fin 0 \<rparr>"
proof -
  have "filter (\<lambda>h. setDateBack now 7 \<le> date h) (healthScores db) = []"
    using assms by (auto simp: filter_empty_conv)
  then show ?thesis by (simp add: getLatestTeamHealth_def Let_def)
qed

text \<open>
  C8, as the code has it. The cutoff of \<^verbatim>\<open>getLatestTeamHealth\<close> is the invocation time set
  back 7 calendar days, whatever the server's time zone makes of that, and the rows it
  averages are those dated at or after the cutoff, with no upper bound. When every health
  score is dated before the cutoff, the aggregate is zero in all four fields, and the
  route answers with the health score 0 and the labels the thresholds give for that
  aggregate: burnout risk \<^verbatim>\<open>Low\<close>, growth potential \<^verbatim>\<open>Stalled\<close> (the performance score 0
  is below 50) and engagement health \<^verbatim>\<open>Disconnected\<close> (the engagement score 0 is below
  40).
\<close>

theorem team_health_empty_week:
  assumes "\<forall>h \<in> set (healthScores db). date h < setDateBack now 7"
  shows "getLatestTeamHealth setDateBack now db =
       \<lparr> th_burnoutRisk = Fin 0, th_engagementScore = Fin 0,
         th_performanceScore = Fin 0, th_workloadScore = Fin 0 \<rparr>
     \<and> healthScore (api_team_health setDateBack now db) = Fin 0
     \<and> r_burnoutRisk (api_team_health setDateBack now db) = ''Low''
     \<and> r_growthPotential (api_team_health setDateBack now db) = ''Stalled''
     \<and> engagementHealth (api_team_health setDateBack now db) = ''Disconnected''"
  using getLatestTeamHealth_none
    [where setDateBack = setDateBack and now = now and db = db, OF assms]
  by (simp add: api_team_health_def Let_def)

theorem team_health_empty_week_witness:
  "getLatestTeamHealth setDateBack_utc 1700000000 db_old_score =
       \<lparr> th_burnoutRisk = Fin 0, th_engagementScore = Fin 0,
         th_performanceScore = Fin 0, th_workloadScore = Fin 0 \<rparr>
     \<and> healthScore (api_team_health setDateBack_utc 1700000000 db_old_score) = Fin 0
     \<and> r_burnoutRisk (api_team_health setDateBack_utc 1700000000 db_old_score) = ''Low''
     \<and> r_growthPotential (api_team_health setDateBack_utc 1700000000 db_old_score)
         = ''Stalled''
     \<and> engagementHealth (api_team_health setDateBack_utc 1700000000 db_old_score)
         = ''Disconnected''"
  by (rule team_health_empty_week [where setDateBack = setDateBack_utc])
     (simp add: db_old_score_def old_score_def setDateBack_utc_def)

text \<open>
  The claim C8 as stated, the labels \<^verbatim>\<open>Steady\<close> and \<^verbatim>\<open>Balanced\<close>, fails on the store
  with no health score at all.
\<close>

theorem team_health_labels_counterexample:
  "set (healthScores db_empty) = {}
   \<and> r_growthPotential (api_team_health setDateBack_utc 1700000000000 db_empty) = ''Stalled''
   \<and> r_growthPotential (api_team_health setDateBack_utc 1700000000000 db_empty) \<noteq> ''Steady''
   \<and> engagementHealth (api_team_health setDateBack_utc 1700000000000 db_empty)
       = ''Disconnected''
   \<and> engagementHealth (api_team_health setDateBack_utc 1700000000000 db_empty)
       \<noteq> ''Balanced''"
  by (simp add: db_empty_def api_team_health_def getLatestTeamHealth_def Let_def)

text \<open>
  A row dated after the invocation time is not within the trailing 7 days, but it is at
  or after the cutoff, and the aggregate counts it: on the store whose only score is
  dated one day ahead, the aggregate is that score and the labels follow it.
\<close>

lemma team_health_future_row:
  "getLatestTeamHealth setDateBack_utc 1700000000000 db_future_score =
       \<lparr> th_burnoutRisk = Fin 90, th_engagementScore = Fin 90,
         th_performanceScore = Fin 90, th_workloadScore = Fin 90 \<rparr>
   \<and> r_burnoutRisk (api_team_health setDateBack_utc 1700000000000 db_future_score)
       = ''High''
   \<and> r_growthPotential (api_team_health setDateBack_utc 1700000000000 db_future_score)
       = ''Emerging''
   \<and> engagementHealth (api_team_health setDateBack_utc 1700000000000 db_future_score)
       = ''Overloaded''"
proof -
  have h: "getLatestTeamHealth setDateBack_utc 1700000000000 db_future_score =
       \<lparr> th_burnoutRisk = Fin 90, th_engagementScore = Fin 90,
         th_performanceScore = Fin 90, th_workloadScore = Fin 90 \<rparr>"
    by (simp add: getLatestTeamHealth_def db_future_score_def setDateBack_utc_def Let_def)
  then show ?thesis by (simp add: api_team_health_def Let_def)
qed

section \<open>The payload window\<close>

lemma getWeeklyMetrics_desc:
  "sorted_wrt (\<lambda>a b. weekStart b \<le> weekStart a) (getWeeklyMetrics db eid)"
proof -
  have "sorted (map (\<lambda>m. - weekStart m) (getWeeklyMetrics db eid))"
    by (simp add: getWeeklyMetrics_def)
  then show ?thesis by (simp add: sorted_wrt_map)
qed

lemma getWeeklyMetrics_mset:
  "mset (getWeeklyMetrics db eid) = mset (metricsOf db eid)"
  by (simp add: getWeeklyMetrics_def metricsOf_def)

lemma getWeeklyMetrics_length:
  "length (getWeeklyMetrics db eid) = length (metricsOf db eid)"
  by (simp add: getWeeklyMetrics_def metricsOf_def)

lemma buildPayload_None:
  "length (metricsOf db eid) < 4 \<Longrightarrow> buildPayloadForEmployee db eid = None"
  by (simp add: buildPayloadForEmployee_def Let_def getWeeklyMetrics_length)

lemma buildPayload_Some:
  "4 \<le> length (metricsOf db eid) \<Longrightarrow> buildPayloadForEmployee db eid =
     Some \<lparr> employee_id = eid,
            weeks = map weekPayload (rev (take 4 (getWeeklyMetrics db eid))) \<rparr>"
  by (simp add: buildPayloadForEmployee_def Let_def getWeeklyMetrics_length)

lemma buildPayload_SomeD:
  "buildPayloadForEmployee db eid = Some p \<Longrightarrow> employee_id p = eid \<and> 4 \<le> length (metricsOf db eid)"
  by (auto simp: buildPayloadForEmployee_def Let_def getWeeklyMetrics_length split: if_splits)

lemma buildPayload_self:
  "buildPayloadForEmployee db eid = Some p \<Longrightarrow> buildPayloadForEmployee db (employee_id p) = Some p"
  using buildPayload_SomeD by fastforce

lemma window_props:
  assumes "4 \<le> length (metricsOf db eid)"
  shows "\<exists>window rest.
     buildPayloadForEmployee db eid
       = Some \<lparr> employee_id = eid, weeks = map weekPayload window \<rparr>
     \<and> length window = 4
     \<and> mset window + mset rest = mset (metricsOf db eid)
     \<and> sorted (map weekStart window)
     \<and> (\<forall>r \<in> set rest. \<forall>w \<in> set window. weekStart r \<le> weekStart w)"
proof -
  let ?ms = "getWeeklyMetrics db eid"
  let ?window = "rev (take 4 ?ms)" and ?rest = "drop 4 ?ms"
  have s: "sorted_wrt (\<lambda>a b. weekStart b \<le> weekStart a) (take 4 ?ms @ drop 4 ?ms)"
    using getWeeklyMetrics_desc by simp
  have "length ?window = 4" using assms by (simp add: getWeeklyMetrics_length)
  moreover have "mset ?window + mset ?rest = mset (metricsOf db eid)"
    by (simp add: getWeeklyMetrics_mset [symmetric] union_code)
  moreover have "sorted (map weekStart ?window)"
    using s unfolding sorted_wrt_append by (simp add: sorted_wrt_map sorted_wrt_rev rev_map [symmetric])
  moreover have "\<forall>r \<in> set ?rest. \<forall>w \<in> set ?window. weekStart r \<le> weekStart w"
    using s unfolding sorted_wrt_append by auto
  ultimately show ?thesis using buildPayload_Some [OF assms] by blast
qed


section \<open>The prediction routes: what is skipped, what is sent\<close>

subsection \<open>The two loops and the batch call\<close>

lemma cacheGate_toPredict:
  "snd (cacheGate env db batch) = filter (\<lambda>p. recently_cached env db p = None) batch"
  by (induction batch) (auto simp: Let_def split: prod.splits option.splits)

lemma cacheGate_recentlyCached:
  "length (fst (cacheGate env db batch))
     = length (filter (\<lambda>p. recently_cached env db p \<noteq> None) batch)"
  by (induction batch) (auto simp: Let_def split: prod.splits option.splits)

lemma collectPayloads_skipped:
  "fst (collectPayloads db es)
     = length (filter (\<lambda>e. buildPayloadForEmployee db (emp_id e) = None) es)"
  by (induction es) (auto simp: Let_def split: prod.splits option.splits)

lemma collectPayloads_set:
  "p \<in> set (snd (collectPayloads db es)) \<Longrightarrow> buildPayloadForEmployee db (employee_id p) = Some p"
  by (induction es) (auto simp: Let_def split: prod.splits option.splits dest: buildPayload_self)

lemma runMlBatch_calls:
  "runMlBatch env batch db = (r, db', calls)
    \<Longrightarrow> calls = [] \<or> calls = [filter (\<lambda>p. recently_cached env db p = None) batch]"
  using cacheGate_toPredict [of env db batch]
  by (auto simp: runMlBatch_def Let_def split: prod.splits if_splits ml_reply.splits)

lemma runMlBatch_NotOk:
  assumes "runMlBatch env batch db = (r, db', [sent])" "mlService env sent = NotOk detail"
  shows "r = Inr (BatchNotOk detail) \<and> db' = db"
  using assms
  by (auto simp: runMlBatch_def Let_def split: prod.splits if_splits ml_reply.splits)

lemma runMlBatch_skipped:
  assumes "runMlBatch env batch db = (Inr (BatchOk p s k), db', calls)"
  shows "k = length (filter (\<lambda>p. recently_cached env db p \<noteq> None) batch)"
  using assms cacheGate_recentlyCached [of env db batch]
  by (auto simp: runMlBatch_def Let_def split: prod.splits if_splits ml_reply.splits)

lemma getEmployee_SomeD:
  "getEmployee db eid = Some e \<Longrightarrow> e \<in> set (employees db) \<and> emp_id e = eid"
  using find_SomeD [of "\<lambda>e. emp_id e = eid" "employees db" e]
  by (simp add: getEmployee_def)

lemma route_calls:
  assumes "predict_route env req db = (r, db', calls)" "p \<in> set (concat calls)"
  shows "buildPayloadForEmployee db (employee_id p) = Some p"
proof (cases req)
  case PredictAll
  obtain k batch where cp: "collectPayloads db (getEmployees db) = (k, batch)"
    by (cases "collectPayloads db (getEmployees db)")
  obtain r1 db1 calls1 where rb: "runMlBatch env batch db = (r1, db1, calls1)"
    by (cases "runMlBatch env batch db")
  have "calls = [] \<or> calls = calls1"
    using assms(1) PredictAll cp rb
    by (auto simp: api_ml_predict_def split: if_splits sum.splits batch_result.splits)
  then have "p \<in> set batch"
    using assms(2) runMlBatch_calls [OF rb] by auto
  then show ?thesis using collectPayloads_set [of p db "getEmployees db"] cp by simp
next
  case (PredictQuery eid)
  show ?thesis
  proof (cases "buildPayloadForEmployee db eid")
    case None
    then show ?thesis using assms PredictQuery
      by (auto simp: api_ml_predict_def split: option.splits)
  next
    case (Some payload)
    obtain r1 db1 calls1 where rb: "runMlBatch env [payload] db = (r1, db1, calls1)"
      by (cases "runMlBatch env [payload] db")
    have "calls = [] \<or> calls = calls1"
      using assms(1) PredictQuery Some rb
      by (auto simp: api_ml_predict_def split: option.splits sum.splits batch_result.splits)
    then have "p = payload"
      using assms(2) runMlBatch_calls [OF rb] by (auto split: if_splits)
    then show ?thesis using Some buildPayload_self by blast
  qed
next
  case (PredictOne eid)
  show ?thesis
  proof (cases "buildPayloadForEmployee db eid")
    case None
    then show ?thesis using assms PredictOne
      by (auto simp: api_ml_predictOne_def split: option.splits)
  next
    case (Some payload)
    obtain r1 db1 calls1 where rb: "runMlBatch env [payload] db = (r1, db1, calls1)"
      by (cases "runMlBatch env [payload] db")
    have "calls = [] \<or> calls = calls1"
      using assms(1) PredictOne Some rb
      by (auto simp: api_ml_predictOne_def split: option.splits sum.splits batch_result.splits)
    then have "p = payload"
      using assms(2) runMlBatch_calls [OF rb] by (auto split: if_splits)
    then show ?thesis using Some buildPayload_self by blast
  qed
qed


subsection \<open>The example store\<close>

lemma ex_metrics1: "getWeeklyMetrics db_example 1 =
   [example_metric 4 1 500, example_metric 7 1 400, example_metric 1 1 300,
    example_metric 6 1 200, example_metric 3 1 100]"
  by (simp add: getWeeklyMetrics_def db_example_def example_metric_def)

lemma ex_payload1: "buildPayloadForEmployee db_example 1 = Some example_payload"
  by (simp add: buildPayloadForEmployee_def ex_metrics1 example_payload_def Let_def)

lemma ex_short2: "length (metricsOf db_example 2) = 3"
  by (simp add: metricsOf_def db_example_def example_metric_def)

lemma ex_long1: "length (metricsOf db_example 1) = 5"
  by (simp add: metricsOf_def db_example_def example_metric_def)

lemma ex_latest1: "getLatestMlPrediction db_example 1 = Some example_prediction"
  by (simp add: getLatestMlPrediction_def db_example_def example_prediction_def)

lemma ex_fresh: "recently_cached env_fresh db_example example_payload = Some example_prediction"
  by (simp add: recently_cached_def ex_latest1 example_payload_def)
     (simp add: example_prediction_def env_fresh_def default_cacheTtlMs_def)

lemma ex_stale: "recently_cached env_stale db_example example_payload = None"
  by (simp add: recently_cached_def ex_latest1 example_payload_def)
     (simp add: example_prediction_def env_stale_def default_cacheTtlMs_def)

lemma ex_emp1: "getEmployee db_example 1 \<noteq> None" 
  by (simp add: getEmployee_def db_example_def)

lemma ex_batch_fresh: "runMlBatch env_fresh [example_payload] db_example = (Inr (BatchOk 0 0 1), db_example, [])"
  by (simp add: runMlBatch_def ex_fresh)

lemma ex_batch_stale: "runMlBatch env_stale [example_payload] db_example
   = (Inr (BatchNotOk ''model not loaded''), db_example, [[example_payload]])"
  by (simp add: runMlBatch_def ex_stale) (simp add: env_stale_def)

lemma ex_collect: "collectPayloads db_example (employees db_example) = (1, [example_payload])"
proof -
  have "buildPayloadForEmployee db_example 2 = None"
    by (rule buildPayload_None) (simp add: ex_short2)
  then show ?thesis
    by (simp add: db_example_def [THEN arg_cong, of employees] ex_payload1)
qed

lemma ex_all_fresh:
  "predict_route env_fresh PredictAll db_example
     = (Inr (Response 200 (Summary 0 2 0)), db_example, [])"
  by (simp add: api_ml_predict_def getEmployees_def ex_collect ex_batch_fresh)

lemma ex_one_stale:
  "predict_route env_stale (PredictOne 1) db_example
     = (Inr (Response 502 (MlServiceError ''ML service error'' ''model not loaded'')),
        db_example, [[example_payload]])"
  using ex_emp1 by (auto simp: api_ml_predictOne_def ex_payload1 ex_batch_stale)


subsection \<open>The cache gate on the routes for one employee\<close>

text \<open>
  An employee with a payload whose latest prediction is younger than the cache lifetime:
  no route calls the service or changes the store. The route
  \<^verbatim>\<open>POST /api/ml/predict/:employeeId\<close> reports the employee as skipped; the route
  \<^verbatim>\<open>POST /api/ml/predict?employeeId=\<close> answers with the constant \<^verbatim>\<open>skipped: 0\<close>.
\<close>

lemma fresh_cache_routes:
  assumes "getEmployee db eid = Some employee"
    "buildPayloadForEmployee db eid = Some payload"
    "getLatestMlPrediction db eid = Some cached" "createdAt cached = Some created"
    "Date_now env - created < cacheTtlMs env"
  shows "predict_route env (PredictOne eid) db
       = (Inr (Response 200 (Summary 0 1 0)), db, [])"
    and "predict_route env (PredictQuery eid) db
       = (Inr (Response 200 (Summary 0 0 0)), db, [])"
proof -
  have "employee_id payload = eid" using assms(2) buildPayload_SomeD by blast
  then have "recently_cached env db payload = Some cached"
    using assms(3-5) by (simp add: recently_cached_def)
  then have b: "runMlBatch env [payload] db = (Inr (BatchOk 0 0 1), db, [])"
    by (simp add: runMlBatch_def)
  show "predict_route env (PredictOne eid) db
       = (Inr (Response 200 (Summary 0 1 0)), db, [])"
    by (simp add: api_ml_predictOne_def assms(1,2) b)
  show "predict_route env (PredictQuery eid) db
       = (Inr (Response 200 (Summary 0 0 0)), db, [])"
    by (simp add: api_ml_predict_def assms(1,2) b)
qed

text \<open>
  With a latest prediction as old as the lifetime or older, the employee's payload is the
  request sent to the service, on both routes.
\<close>

lemma stale_cache_routes:
  assumes "getEmployee db eid = Some employee"
    "buildPayloadForEmployee db eid = Some payload"
    "getLatestMlPrediction db eid = Some cached" "createdAt cached = Some created"
    "cacheTtlMs env \<le> Date_now env - created"
  shows "snd (snd (predict_route env (PredictOne eid) db)) = [[payload]]"
    and "snd (snd (predict_route env (PredictQuery eid) db)) = [[payload]]"
proof -
  have "employee_id payload = eid" using assms(2) buildPayload_SomeD by blast
  then have "recently_cached env db payload = None"
    using assms(3-5) by (simp add: recently_cached_def)
  then have b: "snd (snd (runMlBatch env [payload] db)) = [[payload]]"
    by (simp add: runMlBatch_def Let_def split: ml_reply.splits prod.splits)
  obtain r1 db1 where rb: "runMlBatch env [payload] db = (r1, db1, [[payload]])"
    using b by (cases "runMlBatch env [payload] db") simp
  show "snd (snd (predict_route env (PredictOne eid) db)) = [[payload]]"
    by (simp add: api_ml_predictOne_def assms(1,2) rb split: sum.splits batch_result.splits)
  show "snd (snd (predict_route env (PredictQuery eid) db)) = [[payload]]"
    by (simp add: api_ml_predict_def assms(1,2) rb split: sum.splits batch_result.splits)
qed

text \<open>
  C4, at the example store. The first employee has five weekly metrics and a prediction
  created 10 seconds before the run, under the default lifetime of 300000 ms. The run
  with the query parameter calls no service and leaves the store as it is, but reports
  \<^verbatim>\<open>skipped: 0\<close>; the run through the path parameter reports \<^verbatim>\<open>skipped: 1\<close>.
\<close>

theorem fresh_cache_query_route_reports_no_skip:
  "predict_route env_fresh (PredictQuery 1) db_example
     = (Inr (Response 200 (Summary 0 0 0)), db_example, [])
   \<and> predict_route env_fresh (PredictOne 1) db_example
     = (Inr (Response 200 (Summary 0 1 0)), db_example, [])"
  using ex_emp1
  by (auto simp add: api_ml_predict_def api_ml_predictOne_def ex_payload1 ex_batch_fresh)


subsection \<open>Employees with fewer than four weeks\<close>

text \<open>
  C5. An employee of the store with fewer than 4 weekly metrics: a run for that employee,
  by query or by path parameter, answers 200 with \<^verbatim>\<open>processed: 0, skipped: 1,
  predictionsSaved: 0\<close>, calls no service and leaves the store as it is; no request that
  any run sends to the service has a payload of that employee; and when the run over all
  employees answers with a summary, its skipped count is the number of employees with
  fewer than 4 weekly metrics, of which this employee is one, plus the number of payloads
  the cache gate held back.
\<close>

theorem short_window_skipped:
  assumes "getEmployee db eid = Some employee" "length (metricsOf db eid) < 4"
  shows "predict_route env (PredictQuery eid) db
       = (Inr (Response 200 (Summary 0 1 0)), db, [])
     \<and> predict_route env (PredictOne eid) db
       = (Inr (Response 200 (Summary 0 1 0)), db, [])
     \<and> (\<forall>p \<in> set (concat (snd (snd (predict_route env req db)))). employee_id p \<noteq> eid)
     \<and> (fst (predict_route env PredictAll db) = Inr (Response 200 (Summary p k s)) \<longrightarrow>
          employee \<in> set (filter (\<lambda>e. length (metricsOf db (emp_id e)) < 4) (employees db))
          \<and> k = length (filter (\<lambda>e. length (metricsOf db (emp_id e)) < 4) (employees db))
               + length (filter (\<lambda>p. recently_cached env db p \<noteq> None)
                   (snd (collectPayloads db (employees db)))))"
proof -
  have none: "buildPayloadForEmployee db eid = None"
    using assms(2) by (rule buildPayload_None)
  have q: "predict_route env (PredictQuery eid) db
       = (Inr (Response 200 (Summary 0 1 0)), db, [])"
    by (simp add: api_ml_predict_def assms(1) none)
  have o: "predict_route env (PredictOne eid) db
       = (Inr (Response 200 (Summary 0 1 0)), db, [])"
    by (simp add: api_ml_predictOne_def assms(1) none)
  have c: "\<forall>p \<in> set (concat (snd (snd (predict_route env req db)))). employee_id p \<noteq> eid"
  proof
    fix p assume p: "p \<in> set (concat (snd (snd (predict_route env req db))))"
    obtain r db' calls where "predict_route env req db = (r, db', calls)"
      by (cases "predict_route env req db")
    then have "buildPayloadForEmployee db (employee_id p) = Some p"
      using p route_calls by fastforce
    then show "employee_id p \<noteq> eid" using none by auto
  qed
  have short_iff: "\<And>e. (buildPayloadForEmployee db (emp_id e) = None)
      = (length (metricsOf db (emp_id e)) < 4)"
    using buildPayload_None buildPayload_Some by (metis not_less option.distinct(1))
  have a: "fst (predict_route env PredictAll db) = Inr (Response 200 (Summary p k s)) \<longrightarrow>
          employee \<in> set (filter (\<lambda>e. length (metricsOf db (emp_id e)) < 4) (employees db))
          \<and> k = length (filter (\<lambda>e. length (metricsOf db (emp_id e)) < 4) (employees db))
               + length (filter (\<lambda>p. recently_cached env db p \<noteq> None)
                   (snd (collectPayloads db (employees db))))"
  proof
    assume r: "fst (predict_route env PredictAll db) = Inr (Response 200 (Summary p k s))"
    obtain n batch where cp: "collectPayloads db (employees db) = (n, batch)"
      by (cases "collectPayloads db (employees db)")
    have n: "n = length (filter (\<lambda>e. length (metricsOf db (emp_id e)) < 4) (employees db))"
      using collectPayloads_skipped [of db "employees db"] cp by (simp add: short_iff)
    have mem: "employee \<in> set (filter (\<lambda>e. length (metricsOf db (emp_id e)) < 4) (employees db))"
      using getEmployee_SomeD [OF assms(1)] assms(2) by simp
    obtain r1 db1 calls1 where rb: "runMlBatch env batch db = (r1, db1, calls1)"
      by (cases "runMlBatch env batch db")
    have "k = n + length (filter (\<lambda>p. recently_cached env db p \<noteq> None) batch)"
    proof (cases "length batch = 0")
      case True
      then show ?thesis using r cp
        by (simp add: api_ml_predict_def getEmployees_def)
    next
      case False
      then obtain p' s' k' where "r1 = Inr (BatchOk p' s' k')" "k = n + k'"
        using r cp rb
        by (auto simp: api_ml_predict_def getEmployees_def
            split: sum.splits batch_result.splits)
      then show ?thesis using runMlBatch_skipped rb by blast
    qed
    then show "employee \<in> set (filter (\<lambda>e. length (metricsOf db (emp_id e)) < 4) (employees db))
          \<and> k = length (filter (\<lambda>e. length (metricsOf db (emp_id e)) < 4) (employees db))
               + length (filter (\<lambda>p. recently_cached env db p \<noteq> None)
                   (snd (collectPayloads db (employees db))))"
      using mem n cp by simp
  qed
  from q o c a show ?thesis by blast
qed

theorem short_window_skipped_witness:
  "predict_route env_fresh (PredictQuery 2) db_example
       = (Inr (Response 200 (Summary 0 1 0)), db_example, [])
   \<and> predict_route env_fresh (PredictOne 2) db_example
       = (Inr (Response 200 (Summary 0 1 0)), db_example, [])
   \<and> predict_route env_stale PredictAll db_example
       = (Inr (Response 502 (MlServiceError ''ML service error'' ''model not loaded'')),
          db_example, [[example_payload]])
   \<and> employee_id example_payload \<noteq> 2
   \<and> predict_route env_fresh PredictAll db_example
       = (Inr (Response 200 (Summary 0 2 0)), db_example, [])"
proof -
  have e: "getEmployee db_example 2 = Some \<lparr> emp_id = 2, emp_name = ''Ben'',
       emp_role = ''Designer'', department = ''Design'', email = ''ben@pulse.ai'',
       joinedAt = None \<rparr>"
    by (simp add: getEmployee_def db_example_def)
  have l: "length (metricsOf db_example 2) < 4" by (simp add: ex_short2)
  have st: "predict_route env_stale PredictAll db_example
       = (Inr (Response 502 (MlServiceError ''ML service error'' ''model not loaded'')),
          db_example, [[example_payload]])"
    by (simp add: api_ml_predict_def getEmployees_def ex_collect ex_batch_stale)
  from short_window_skipped [OF e l, of env_fresh]
    short_window_skipped [OF e l, of env_stale "PredictAll"] st ex_all_fresh
  show ?thesis by simp
qed


subsection \<open>The service answers with an error status\<close>

text \<open>
  C7. When a run, on any of the three routes, sends a request to the service and the
  service answers it with a status that is not \<^verbatim>\<open>ok\<close>, the run answers 502 with the
  message \<^verbatim>\<open>ML service error\<close> and the body of the service's answer as detail, and the
  store, its predictions among the rest, is as it was before the run.
\<close>

theorem upstream_failure:
  assumes "predict_route env req db = (r, db', [sent])" "mlService env sent = NotOk detail"
  shows "r = Inr (Response 502 (MlServiceError ''ML service error'' detail)) \<and> db' = db"
proof -
  have batch: "\<And>batch r1 db1 calls1. runMlBatch env batch db = (r1, db1, calls1) \<Longrightarrow> calls1 = [sent]
      \<Longrightarrow> r1 = Inr (BatchNotOk detail) \<and> db1 = db"
    using runMlBatch_NotOk assms(2) by blast
  show ?thesis
  proof (cases req)
    case PredictAll
    obtain n batch where cp: "collectPayloads db (getEmployees db) = (n, batch)"
      by (cases "collectPayloads db (getEmployees db)")
    obtain r1 db1 calls1 where rb: "runMlBatch env batch db = (r1, db1, calls1)"
      by (cases "runMlBatch env batch db")
    have "calls1 = [sent] \<and> db' = db1"
      using assms(1) PredictAll cp rb
      by (auto simp: api_ml_predict_def split: if_splits sum.splits batch_result.splits)
    then show ?thesis
      using batch [OF rb] assms(1) PredictAll cp rb
      by (auto simp: api_ml_predict_def split: if_splits)
  next
    case (PredictQuery eid)
    show ?thesis
    proof (cases "buildPayloadForEmployee db eid")
      case None
      then show ?thesis using assms(1) PredictQuery
        by (auto simp: api_ml_predict_def split: option.splits)
    next
      case (Some payload)
      obtain r1 db1 calls1 where rb: "runMlBatch env [payload] db = (r1, db1, calls1)"
        by (cases "runMlBatch env [payload] db")
      have "calls1 = [sent] \<and> db' = db1"
        using assms(1) PredictQuery Some rb
        by (auto simp: api_ml_predict_def split: option.splits sum.splits batch_result.splits)
      then show ?thesis
        using batch [OF rb] assms(1) PredictQuery Some rb
        by (auto simp: api_ml_predict_def split: option.splits)
    qed
  next
    case (PredictOne eid)
    show ?thesis
    proof (cases "buildPayloadForEmployee db eid")
      case None
      then show ?thesis using assms(1) PredictOne
        by (auto simp: api_ml_predictOne_def split: option.splits)
    next
      case (Some payload)
      obtain r1 db1 calls1 where rb: "runMlBatch env [payload] db = (r1, db1, calls1)"
        by (cases "runMlBatch env [payload] db")
      have "calls1 = [sent] \<and> db' = db1"
        using assms(1) PredictOne Some rb
        by (auto simp: api_ml_predictOne_def split: option.splits sum.splits batch_result.splits)
      then show ?thesis
        using batch [OF rb] assms(1) PredictOne Some rb
        by (auto simp: api_ml_predictOne_def split: option.splits)
    qed
  qed
qed

theorem upstream_failure_witness:
  "fst (predict_route env_stale (PredictOne 1) db_example)
     = Inr (Response 502 (MlServiceError ''ML service error'' ''model not loaded''))
   \<and> fst (snd (predict_route env_stale (PredictOne 1) db_example)) = db_example
   \<and> snd (snd (predict_route env_stale (PredictOne 1) db_example)) = [[example_payload]]
   \<and> mlService env_stale [example_payload] = NotOk ''model not loaded''"
proof -
  obtain r db' where run: "predict_route env_stale (PredictOne 1) db_example
      = (r, db', [[example_payload]])"
    using ex_one_stale by blast
  have reply: "mlService env_stale [example_payload] = NotOk ''model not loaded''"
    by (simp add: env_stale_def)
  from upstream_failure [OF run reply] run reply show ?thesis by simp
qed


subsection \<open>The payload that is sent\<close>

text \<open>
  C9. For an employee with at least 4 weekly metrics the payload carries the employee's id
  and is built from a window of exactly 4 of the employee's metrics: together with the
  metrics left out they are the employee's stored metrics, and no metric left out has a
  later week start than one of the window. The weeks of the payload are the metrics of
  the window, each with its week start and its eight measures, in ascending order of the
  week start. Every payload of that employee in a request that a run sends to the service
  is this payload.
\<close>

theorem payload_window:
  assumes "4 \<le> length (metricsOf db eid)"
  shows "\<exists>window rest payload.
       buildPayloadForEmployee db eid = Some payload
       \<and> employee_id payload = eid
       \<and> weeks payload =
           map (\<lambda>week.
                 \<lparr> week_start = weekStart week,
                   tasks_assigned = tasksAssigned week,
                   tasks_completed = tasksCompleted week,
                   missed_deadlines = missedDeadlines week,
                   meeting_hours = meetingHours week,
                   collaboration_score = collaborationScore week,
                   engagement_score = wm_engagementScore week,
                   learning_hours = learningHours week,
                   stretch_assignments = stretchAssignments week \<rparr>) window
       \<and> length window = 4
       \<and> mset window + mset rest = mset (metricsOf db eid)
       \<and> sorted (map weekStart window)
       \<and> sorted (map week_start (weeks payload))
       \<and> (\<forall>r \<in> set rest. \<forall>w \<in> set window. weekStart r \<le> weekStart w)
       \<and> (\<forall>p \<in> set (concat (snd (snd (predict_route env req db)))).
            employee_id p = eid \<longrightarrow> p = payload)"
proof -
  obtain window rest where w:
    "buildPayloadForEmployee db eid
       = Some \<lparr> employee_id = eid, weeks = map weekPayload window \<rparr>"
    "length window = 4"
    "mset window + mset rest = mset (metricsOf db eid)"
    "sorted (map weekStart window)"
    "\<forall>r \<in> set rest. \<forall>w \<in> set window. weekStart r \<le> weekStart w"
    using window_props [OF assms] by blast
  let ?payload = "\<lparr> employee_id = eid, weeks = map weekPayload window \<rparr>"
  have fields: "weeks ?payload =
           map (\<lambda>week.
                 \<lparr> week_start = weekStart week,
                   tasks_assigned = tasksAssigned week,
                   tasks_completed = tasksCompleted week,
                   missed_deadlines = missedDeadlines week,
                   meeting_hours = meetingHours week,
                   collaboration_score = collaborationScore week,
                   engagement_score = wm_engagementScore week,
                   learning_hours = learningHours week,
                   stretch_assignments = stretchAssignments week \<rparr>) window"
    by (simp add: weekPayload_def)
  have "map week_start (weeks ?payload) = map weekStart window"
    by (simp add: weekPayload_def)
  then have asc: "sorted (map week_start (weeks ?payload))"
    using w(4) by (simp only:)
  have sent: "\<forall>p \<in> set (concat (snd (snd (predict_route env req db)))).
            employee_id p = eid \<longrightarrow> p = ?payload"
  proof (intro ballI impI)
    fix p assume p: "p \<in> set (concat (snd (snd (predict_route env req db))))"
      and e: "employee_id p = eid"
    obtain r db' calls where "predict_route env req db = (r, db', calls)"
      by (cases "predict_route env req db")
    then have "buildPayloadForEmployee db (employee_id p) = Some p"
      using p route_calls by fastforce
    then show "p = ?payload"
      using w(1) e by simp
  qed
  have id: "employee_id ?payload = eid" by simp
  from w(1) id fields w(2) w(3) w(4) asc w(5) sent show ?thesis by blast
qed

theorem payload_window_witness:
  "buildPayloadForEmployee db_example 1
     = Some \<lparr> employee_id = 1,
              weeks = [example_week 200, example_week 300,
                       example_week 400, example_week 500] \<rparr>
   \<and> snd (snd (predict_route env_stale (PredictOne 1) db_example))
     = [[\<lparr> employee_id = 1,
           weeks = [example_week 200, example_week 300,
                    example_week 400, example_week 500] \<rparr>]]
   \<and> (\<exists>window rest payload.
       buildPayloadForEmployee db_example 1 = Some payload
       \<and> employee_id payload = 1
       \<and> weeks payload =
           map (\<lambda>week.
                 \<lparr> week_start = weekStart week,
                   tasks_assigned = tasksAssigned week,
                   tasks_completed = tasksCompleted week,
                   missed_deadlines = missedDeadlines week,
                   meeting_hours = meetingHours week,
                   collaboration_score = collaborationScore week,
                   engagement_score = wm_engagementScore week,
                   learning_hours = learningHours week,
                   stretch_assignments = stretchAssignments week \<rparr>) window
       \<and> length window = 4
       \<and> mset window + mset rest = mset (metricsOf db_example 1)
       \<and> sorted (map weekStart window)
       \<and> sorted (map week_start (weeks payload))
       \<and> (\<forall>r \<in> set rest. \<forall>w \<in> set window. weekStart r \<le> weekStart w)
       \<and> (\<forall>p \<in> set (concat (snd (snd (predict_route env_stale (PredictOne 1) db_example)))).
            employee_id p = 1 \<longrightarrow> p = payload))"
proof -
  have l: "4 \<le> length (metricsOf db_example 1)" by (simp add: ex_long1)
  have p: "example_payload = \<lparr> employee_id = 1,
              weeks = [example_week 200, example_week 300,
                       example_week 400, example_week 500] \<rparr>"
    by (simp add: example_payload_def weekPayload_def example_metric_def example_week_def)
  show ?thesis
    using payload_window [OF l, of env_stale "PredictOne 1"] ex_payload1 ex_one_stale
    unfolding p by simp
qed

end
